theory Spec2Isabelle
  imports Complex_Main "HOL-Library.Sublist"
begin

section \<open>Python values, exceptions and strings\<close>

text \<open>
  A Python value that may be \<^verbatim>\<open>None\<close>. A dictionary entry is a \<open>'a py option\<close>:
  \<open>None\<close> when the key is absent, \<open>Some PyNone\<close> when the key is present and holds
  \<^verbatim>\<open>None\<close>. \<^verbatim>\<open>d.get(k, default)\<close> returns the default only for an absent key.
\<close>

datatype 'a py = PyNone | Val 'a

definition dict_get :: "'a py option \<Rightarrow> 'a py \<Rightarrow> 'a py" where
  "dict_get entry dflt = (case entry of None \<Rightarrow> dflt | Some v \<Rightarrow> v)"

text \<open>Exceptions are values; \<open>str_exn\<close> is Python's \<^verbatim>\<open>str(e)\<close>.\<close>

datatype exn = TypeError string | AttributeError string | ValueError string | LookupError string
  | Exception string

fun str_exn :: "exn \<Rightarrow> string" where
  "str_exn (TypeError m) = m"
| "str_exn (AttributeError m) = m"
| "str_exn (ValueError m) = m"
| "str_exn (LookupError m) = m"
| "str_exn (Exception m) = m"

text \<open>\<^verbatim>\<open>f'{x}'\<close> of a value that may be \<^verbatim>\<open>None\<close>.\<close>

fun format_str :: "string py \<Rightarrow> string" where
  "format_str PyNone = ''None''"
| "format_str (Val s) = s"

text \<open>Python truthiness of a string that may be \<^verbatim>\<open>None\<close>.\<close>

fun truthy :: "string py \<Rightarrow> bool" where
  "truthy PyNone = False"
| "truthy (Val s) = (s \<noteq> [])"

text \<open>
  A text is a list of 8-bit characters read as the code points 0 to 255. On that range
  \<^verbatim>\<open>str.lower\<close> maps A to Z and the accented capitals 192 to 222 (but not the
  multiplication sign 215) to the code point 32 above, which sets bit 5; and
  \<^verbatim>\<open>str.isspace\<close> holds of 9 to 13, 28 to 32, 133 and 160.
\<close>

definition isupper :: "char \<Rightarrow> bool" where
  "isupper c =
     (let n = (of_char c :: nat)
      in (65 \<le> n \<and> n \<le> 90) \<or> (192 \<le> n \<and> n \<le> 222 \<and> n \<noteq> 215))"

definition lower_char :: "char \<Rightarrow> char" where
  "lower_char c =
     (if isupper c
      then Char (digit0 c) (digit1 c) (digit2 c) (digit3 c) (digit4 c) True (digit6 c) (digit7 c)
      else c)"

definition lower :: "string \<Rightarrow> string" where
  "lower s = map lower_char s"

definition isspace :: "char \<Rightarrow> bool" where
  "isspace c =
     (let n = (of_char c :: nat)
      in (9 \<le> n \<and> n \<le> 13) \<or> (28 \<le> n \<and> n \<le> 32) \<or> n = 133 \<or> n = 160)"

definition strip :: "string \<Rightarrow> string" where
  "strip s = rev (dropWhile isspace (rev (dropWhile isspace s)))"

text \<open>\<^verbatim>\<open>keyword in text\<close>: the keyword occurs as a contiguous substring.\<close>

definition contains :: "string \<Rightarrow> string \<Rightarrow> bool" where
  "contains text keyword = sublist keyword text"

text \<open>A word between apostrophes, as Python's exception messages print type names.\<close>

definition quoted :: "string \<Rightarrow> string" where
  "quoted s = [CHR 0x27] @ s @ [CHR 0x27]"

text \<open>\<^verbatim>\<open>text.lower()\<close> on a value that may be \<^verbatim>\<open>None\<close>.\<close>

fun py_lower :: "string py \<Rightarrow> exn + string" where
  "py_lower PyNone = Inl (AttributeError (quoted ''NoneType'' @ '' object has no attribute '' @ quoted ''lower''))"
| "py_lower (Val s) = Inr (lower s)"

section \<open>Routing service (backend/modules/routing/document\_routing.py)\<close>

record department =
  dept_name :: string
  dept_email :: string
  dept_responsible_person :: string
  dept_categories :: "string list"

record routing_rules =
  confidence_threshold :: real
  fallback_department :: string
  priority_mapping :: "(string \<times> string) list"
  urgent_keywords :: "string list"
  sensitive_keywords :: "string list"

text \<open>
  The application configuration as the service reads it: \<^verbatim>\<open>config.get(key)\<close> is
  \<^verbatim>\<open>None\<close> for a missing key; \<^verbatim>\<open>NOTIFICATION_METHODS\<close> is read with a default,
  which a key that is present and holds \<^verbatim>\<open>None\<close> does not get.
\<close>

record config =
  EMAIL_USER :: "string py"
  EMAIL_PASSWORD :: "string py"
  WEBHOOK_URL :: "string py"
  NOTIFICATION_METHODS :: "string list py option"

record routing_service =
  departments :: "(string \<times> department) list"
  routing_rules :: routing_rules
  email_user :: "string py"
  email_password :: "string py"
  webhook_url :: "string py"
  notification_methods :: "string list py"

definition load_departments :: "(string \<times> department) list" where
  "load_departments =
     [(''finance'', \<lparr>dept_name = ''Finance Department'', dept_email = ''finance@company.com'',
          dept_responsible_person = ''Finance Manager'',
          dept_categories = [''invoice'', ''financial_statement'', ''receipt'', ''expense_report'']\<rparr>),
      (''hr'', \<lparr>dept_name = ''Human Resources'', dept_email = ''hr@company.com'',
          dept_responsible_person = ''HR Manager'',
          dept_categories = [''resume'', ''employment_contract'', ''employee_handbook'', ''policy_document'']\<rparr>),
      (''legal'', \<lparr>dept_name = ''Legal Department'', dept_email = ''legal@company.com'',
          dept_responsible_person = ''Legal Counsel'',
          dept_categories = [''contract'', ''legal_document'', ''agreement'', ''compliance_document'']\<rparr>),
      (''operations'', \<lparr>dept_name = ''Operations Department'', dept_email = ''operations@company.com'',
          dept_responsible_person = ''Operations Manager'',
          dept_categories = [''report'', ''technical_manual'', ''procedure_document'']\<rparr>),
      (''management'', \<lparr>dept_name = ''Management'', dept_email = ''management@company.com'',
          dept_responsible_person = ''Executive Team'',
          dept_categories = [''executive_summary'', ''strategic_plan'', ''board_document'']\<rparr>),
      (''archive'', \<lparr>dept_name = ''Document Archive'', dept_email = ''archive@company.com'',
          dept_responsible_person = ''Document Controller'',
          dept_categories = [''other'', ''unknown'']\<rparr>)]"

definition load_routing_rules :: routing_rules where
  "load_routing_rules =
     \<lparr>confidence_threshold = 7 / 10,
      fallback_department = ''archive'',
      priority_mapping =
        [(''invoice'', ''high''), (''contract'', ''high''), (''legal_document'', ''high''),
         (''financial_statement'', ''medium''), (''resume'', ''medium''), (''report'', ''low''),
         (''other'', ''low'')],
      urgent_keywords = [''urgent'', ''asap'', ''immediate'', ''priority'', ''deadline''],
      sensitive_keywords = [''confidential'', ''private'', ''restricted'', ''classified'']\<rparr>"

text \<open>\<^verbatim>\<open>DocumentRoutingService.__init__\<close>\<close>

definition DocumentRoutingService :: "config \<Rightarrow> routing_service" where
  "DocumentRoutingService cfg =
     \<lparr>departments = load_departments,
      routing_rules = load_routing_rules,
      email_user = EMAIL_USER cfg,
      email_password = EMAIL_PASSWORD cfg,
      webhook_url = WEBHOOK_URL cfg,
      notification_methods =
        dict_get (NOTIFICATION_METHODS cfg) (Val [''email''])\<rparr>"

text \<open>
  The configuration of the application (backend/config/config.py): it defines no mail,
  webhook or notification key, so every \<^verbatim>\<open>config.get\<close> of the service finds none.
\<close>

definition default_config :: config where
  "default_config =
     \<lparr>EMAIL_USER = PyNone, EMAIL_PASSWORD = PyNone, WEBHOOK_URL = PyNone,
      NOTIFICATION_METHODS = None\<rparr>"

text \<open>
  The fields of \<^verbatim>\<open>document_info\<close> that the routing code branches on. The other keys
  (file name, type, size, upload date, id) only appear in the notification text.
\<close>

record document_info =
  di_classification :: "string py option"
  di_confidence :: "real py option"
  di_extracted_text :: "string py option"
  di_summary :: "string py option"

record routing_result =
  department_id :: string
  department_name :: string
  department_email :: "string py"
  responsible_person :: "string py"
  reason :: string
  rr_confidence :: real
  priority :: string
  is_sensitive :: bool
  needs_review :: bool
  routing_timestamp :: string

text \<open>
  \<^verbatim>\<open>_create_routing_result(department, reason, confidence, priority='medium',
  is_sensitive=False, needs_review=False)\<close>; the clock reading is the argument \<open>now\<close>.
\<close>

definition create_routing_result ::
  "routing_service \<Rightarrow> string \<Rightarrow> string \<Rightarrow> string \<Rightarrow> real \<Rightarrow> string \<Rightarrow> bool \<Rightarrow> bool \<Rightarrow> routing_result" where
  "create_routing_result svc now department rsn conf prio sensitive review =
     (let dept_info = map_of (departments svc) department
      in \<lparr>department_id = department,
          department_name = (case dept_info of None \<Rightarrow> department | Some d \<Rightarrow> dept_name d),
          department_email = (case dept_info of None \<Rightarrow> PyNone | Some d \<Rightarrow> Val (dept_email d)),
          responsible_person =
            (case dept_info of None \<Rightarrow> PyNone | Some d \<Rightarrow> Val (dept_responsible_person d)),
          reason = rsn,
          rr_confidence = conf,
          priority = prio,
          is_sensitive = sensitive,
          needs_review = review,
          routing_timestamp = now\<rparr>)"

text \<open>\<^verbatim>\<open>_determine_priority\<close>; \<^verbatim>\<open>text.lower()\<close> raises on \<^verbatim>\<open>None\<close>.\<close>

definition determine_priority :: "routing_service \<Rightarrow> string py \<Rightarrow> string py \<Rightarrow> exn + string" where
  "determine_priority svc text category =
     (case py_lower text of
        Inl e \<Rightarrow> Inl e
      | Inr text_lower \<Rightarrow>
          if list_ex (\<lambda>keyword. contains text_lower keyword) (urgent_keywords (routing_rules svc))
          then Inr ''urgent''
          else Inr (case category of
                      PyNone \<Rightarrow> ''low''
                    | Val c \<Rightarrow> (case map_of (priority_mapping (routing_rules svc)) c of
                                 None \<Rightarrow> ''low'' | Some p \<Rightarrow> p)))"

text \<open>\<^verbatim>\<open>_check_sensitive_content\<close>\<close>

definition check_sensitive_content :: "routing_service \<Rightarrow> string py \<Rightarrow> exn + bool" where
  "check_sensitive_content svc text =
     (case py_lower text of
        Inl e \<Rightarrow> Inl e
      | Inr text_lower \<Rightarrow>
          Inr (list_ex (\<lambda>keyword. contains text_lower keyword)
                 (sensitive_keywords (routing_rules svc))))"

text \<open>
  The loop over \<^verbatim>\<open>self.departments.items()\<close>: the first department, in insertion
  order, whose category list holds the category. \<^verbatim>\<open>None in [...]\<close> is false.
\<close>

fun find_department :: "(string \<times> department) list \<Rightarrow> string py \<Rightarrow> string option" where
  "find_department [] category = None"
| "find_department ((dept_id, dept_info) # rest) category =
     (if (case category of PyNone \<Rightarrow> False | Val c \<Rightarrow> c \<in> set (dept_categories dept_info))
      then Some dept_id
      else find_department rest category)"

text \<open>
  The body of the \<^verbatim>\<open>try\<close> block of \<^verbatim>\<open>determine_department\<close>. Comparing
  \<^verbatim>\<open>None\<close> with the float threshold raises a TypeError.
\<close>

definition determine_department_try :: "routing_service \<Rightarrow> string \<Rightarrow> document_info \<Rightarrow> exn + routing_result" where
  "determine_department_try svc now document_info =
     (let category = dict_get (di_classification document_info) (Val ''other'');
          confidence = dict_get (di_confidence document_info) (Val 0);
          text = dict_get (di_extracted_text document_info) (Val [])
      in case confidence of
           PyNone \<Rightarrow>
             Inl (TypeError (quoted ''<'' @ '' not supported between instances of ''
                    @ quoted ''NoneType'' @ '' and '' @ quoted ''float''))
         | Val conf \<Rightarrow>
             if conf < confidence_threshold (routing_rules svc)
             then Inr (create_routing_result svc now ''archive'' ''Low confidence classification''
                         conf ''medium'' False True)
             else
               let found = find_department (departments svc) category;
                   target_department =
                     (case found of
                        None \<Rightarrow> fallback_department (routing_rules svc)
                      | Some d \<Rightarrow> if d = [] then fallback_department (routing_rules svc) else d)
               in case determine_priority svc text category of
                    Inl e \<Rightarrow> Inl e
                  | Inr prio \<Rightarrow>
                      (case check_sensitive_content svc text of
                         Inl e \<Rightarrow> Inl e
                       | Inr sensitive \<Rightarrow>
                           Inr (create_routing_result svc now target_department
                                  (''Classified as '' @ format_str category)
                                  conf prio sensitive False)))"

text \<open>\<^verbatim>\<open>determine_department\<close>: the \<^verbatim>\<open>except Exception\<close> handler turns any
  exception of the body into an archive decision.\<close>

definition determine_department :: "routing_service \<Rightarrow> string \<Rightarrow> document_info \<Rightarrow> routing_result" where
  "determine_department svc now document_info =
     (case determine_department_try svc now document_info of
        Inr result \<Rightarrow> result
      | Inl e \<Rightarrow>
          create_routing_result svc now ''archive'' (''Error in routing: '' @ str_exn e)
            0 ''medium'' False True)"

section \<open>Classification service (backend/modules/classification/document\_classification.py)\<close>

text \<open>
  What the service holds after \<^verbatim>\<open>__init__\<close>. The trained model with its vectorizer
  (scikit-learn), the tokenizer, the stop word set and the Porter stemmer (NLTK) are
  libraries outside the repository, so they are fields of the service: \<open>cs_model\<close> is
  \<open>None\<close> when no model file was loaded, and otherwise maps the preprocessed text to the
  predicted label with the class probabilities, or to the exception it raises.
\<close>

record classification_service =
  cs_model :: "(string \<Rightarrow> exn + string \<times> (string \<times> real) list) option"
  cs_word_tokenize :: "string \<Rightarrow> exn + string list"
  cs_stop_words :: "string list"
  cs_stem :: "string \<Rightarrow> string"

text \<open>The stop words the constructor falls back to when the NLTK corpus is missing.\<close>

definition fallback_stop_words :: "string list" where
  "fallback_stop_words =
     [''the'', ''a'', ''an'', ''and'', ''or'', ''but'', ''in'', ''on'', ''at'', ''to'', ''for'', ''of'',
      ''with'', ''by'']"

definition isalpha_ascii :: "char \<Rightarrow> bool" where
  "isalpha_ascii c =
     (let n = (of_char c :: nat) in (65 \<le> n \<and> n \<le> 90) \<or> (97 \<le> n \<and> n \<le> 122))"

text \<open>The letters a to z, of which a normalized word is made.\<close>

definition islower_ascii :: "char \<Rightarrow> bool" where
  "islower_ascii c = (let n = (of_char c :: nat) in 97 \<le> n \<and> n \<le> 122)"

text \<open>\<^verbatim>\<open>re.sub(r'\s+', ' ', text)\<close>: every maximal run of whitespace becomes one space.\<close>

function collapse_whitespace :: "string \<Rightarrow> string" where
  "collapse_whitespace [] = []"
| "collapse_whitespace (c # cs) =
     (if isspace c then CHR '' '' # collapse_whitespace (dropWhile isspace cs)
      else c # collapse_whitespace cs)"
  by pat_completeness auto
termination
  by (relation "measure length") (auto simp: length_dropWhile_le less_Suc_eq_le)

text \<open>\<^verbatim>\<open>' '.join(tokens)\<close>\<close>

fun join_space :: "string list \<Rightarrow> string" where
  "join_space [] = []"
| "join_space [token] = token"
| "join_space (token # rest) = token @ '' '' @ join_space rest"

text \<open>\<^verbatim>\<open>preprocess_text\<close>; only the tokenizer can raise.\<close>

definition preprocess_text :: "classification_service \<Rightarrow> string \<Rightarrow> exn + string" where
  "preprocess_text svc text =
     (let text1 = lower text;
          text2 = filter (\<lambda>c. isalpha_ascii c \<or> isspace c) text1;
          text3 = collapse_whitespace text2
      in case cs_word_tokenize svc text3 of
           Inl e \<Rightarrow> Inl e
         | Inr tokens \<Rightarrow>
             Inr (join_space
                    (map (cs_stem svc)
                       (filter (\<lambda>token. token \<notin> set (cs_stop_words svc) \<and> length token > 2)
                          tokens))))"

text \<open>The keyword lists of \<^verbatim>\<open>rule_based_classification\<close>, in the order it tests them.\<close>

definition invoice_keywords :: "string list" where
  "invoice_keywords = [''invoice'', ''bill'', ''payment'', ''amount due'', ''total'']"

definition invoice_amount_keywords :: "string list" where
  "invoice_amount_keywords = [''$'', ''usd'', ''total'', ''subtotal'']"

definition contract_keywords :: "string list" where
  "contract_keywords = [''agreement'', ''contract'', ''terms and conditions'', ''whereas'']"

definition resume_keywords :: "string list" where
  "resume_keywords = [''experience'', ''education'', ''skills'', ''employment history'']"

definition resume_background_keywords :: "string list" where
  "resume_background_keywords = [''university'', ''degree'', ''work experience'']"

definition legal_keywords :: "string list" where
  "legal_keywords = [''court'', ''legal'', ''attorney'', ''law'', ''plaintiff'', ''defendant'']"

definition report_keywords :: "string list" where
  "report_keywords = [''executive summary'', ''conclusion'', ''analysis'', ''findings'']"

text \<open>\<^verbatim>\<open>any(word in text_lower for word in words)\<close>\<close>

definition any_in :: "string list \<Rightarrow> string \<Rightarrow> bool" where
  "any_in words text_lower = list_ex (\<lambda>word. contains text_lower word) words"

text \<open>
  \<^verbatim>\<open>rule_based_classification\<close>: a cascade of tests, the first that holds returns. The
  invoice and resume tests are two nested conditions, with no \<^verbatim>\<open>else\<close>, so a failed
  inner condition falls through to the next test.
\<close>

definition rule_based_classification :: "string \<Rightarrow> string \<times> real" where
  "rule_based_classification text =
     (let text_lower = lower text
      in if any_in invoice_keywords text_lower \<and> any_in invoice_amount_keywords text_lower
         then (''invoice'', 8 / 10)
         else if any_in contract_keywords text_lower
         then (''contract'', 7 / 10)
         else if any_in resume_keywords text_lower \<and> any_in resume_background_keywords text_lower
         then (''resume'', 75 / 100)
         else if any_in legal_keywords text_lower
         then (''legal_document'', 7 / 10)
         else if any_in report_keywords text_lower
         then (''report'', 6 / 10)
         else (''other'', 5 / 10))"

text \<open>\<^verbatim>\<open>rule_based_classification\<close> as the handler calls it: on \<^verbatim>\<open>None\<close> the call
  \<^verbatim>\<open>text.lower()\<close> raises.\<close>

fun rule_based_classification_py :: "string py \<Rightarrow> exn + string \<times> real" where
  "rule_based_classification_py PyNone =
     Inl (AttributeError (quoted ''NoneType'' @ '' object has no attribute '' @ quoted ''lower''))"
| "rule_based_classification_py (Val t) = Inr (rule_based_classification t)"

record classification_result =
  cr_success :: bool
  cr_error :: "string option"
  cr_category :: string
  cr_confidence :: real
  cr_all_probabilities :: "(string \<times> real) list option"
  cr_method :: "string option"

text \<open>The strategies a call runs, in order, are returned beside its result.\<close>

datatype strategy = ML_Model | Rule_Based

text \<open>\<^verbatim>\<open>max(probabilities)\<close> raises on an empty sequence.\<close>

definition max_probability :: "(string \<times> real) list \<Rightarrow> exn + real" where
  "max_probability probabilities =
     (case map snd probabilities of
        [] \<Rightarrow> Inl (ValueError ''max() arg is an empty sequence'')
      | p # ps \<Rightarrow> Inr (fold max ps p))"

text \<open>The machine learning branch of \<^verbatim>\<open>classify_document\<close>.\<close>

definition classify_with_model ::
  "classification_service \<Rightarrow> (string \<Rightarrow> exn + string \<times> (string \<times> real) list) \<Rightarrow> string
     \<Rightarrow> exn + classification_result" where
  "classify_with_model svc model text =
     (case preprocess_text svc text of
        Inl e \<Rightarrow> Inl e
      | Inr processed_text \<Rightarrow>
          (case model processed_text of
             Inl e \<Rightarrow> Inl e
           | Inr (prediction, probabilities) \<Rightarrow>
               (case max_probability probabilities of
                  Inl e \<Rightarrow> Inl e
                | Inr conf \<Rightarrow>
                    Inr \<lparr>cr_success = True, cr_error = None, cr_category = prediction,
                         cr_confidence = conf, cr_all_probabilities = Some probabilities,
                         cr_method = Some ''machine_learning''\<rparr>)))"

definition text_too_short :: classification_result where
  "text_too_short =
     \<lparr>cr_success = False, cr_error = Some ''Text too short for classification'',
      cr_category = ''other'', cr_confidence = 0, cr_all_probabilities = None,
      cr_method = None\<rparr>"

text \<open>The body of the \<^verbatim>\<open>try\<close> block of \<^verbatim>\<open>classify_document\<close>.\<close>

definition classify_document_try ::
  "classification_service \<Rightarrow> string py \<Rightarrow> (exn + classification_result) \<times> strategy list" where
  "classify_document_try svc text =
     (case text of
        PyNone \<Rightarrow> (Inr text_too_short, [])
      | Val t \<Rightarrow>
          if t = [] \<or> length (strip t) < 10 then (Inr text_too_short, [])
          else
            (case cs_model svc of
               Some model \<Rightarrow> (classify_with_model svc model t, [ML_Model])
             | None \<Rightarrow>
                 (case rule_based_classification t of
                    (category, conf) \<Rightarrow>
                      (Inr \<lparr>cr_success = True, cr_error = None, cr_category = category,
                            cr_confidence = conf, cr_all_probabilities = None,
                            cr_method = Some ''rule_based''\<rparr>,
                       [Rule_Based]))))"

text \<open>
  \<^verbatim>\<open>classify_document\<close>: the handler classifies by the rules and puts
  \<^verbatim>\<open>str(e)\<close> into the result. An exception of the handler itself would leave the call.
\<close>

definition classify_document ::
  "classification_service \<Rightarrow> string py \<Rightarrow> (exn + classification_result) \<times> strategy list" where
  "classify_document svc text =
     (case classify_document_try svc text of
        (Inr result, calls) \<Rightarrow> (Inr result, calls)
      | (Inl e, calls) \<Rightarrow>
          (case rule_based_classification_py text of
             Inl e' \<Rightarrow> (Inl e', calls @ [Rule_Based])
           | Inr (category, conf) \<Rightarrow>
               (Inr \<lparr>cr_success = False, cr_error = Some (str_exn e), cr_category = category,
                     cr_confidence = conf, cr_all_probabilities = None,
                     cr_method = Some ''rule_based_fallback''\<rparr>,
                calls @ [Rule_Based])))"

text \<open>
  The number of keywords of a list that occur in the lowercased text: the score of a
  category, as \<^verbatim>\<open>_classify_with_mock\<close> computes it.
\<close>

definition keyword_score :: "string list \<Rightarrow> string \<Rightarrow> nat" where
  "keyword_score keywords text = length (filter (\<lambda>keyword. contains (lower text) keyword) keywords)"

text \<open>The categories in the order of the cascade, each with the list that triggers it.\<close>

definition category_keywords :: "(string \<times> string list) list" where
  "category_keywords =
     [(''invoice'', invoice_keywords), (''contract'', contract_keywords),
      (''resume'', resume_keywords), (''legal_document'', legal_keywords),
      (''report'', report_keywords)]"

text \<open>The constant confidence that the cascade returns with each category.\<close>

definition heuristic_confidence :: "(string \<times> real) list" where
  "heuristic_confidence =
     [(''invoice'', 8 / 10), (''contract'', 7 / 10), (''resume'', 75 / 100),
      (''legal_document'', 7 / 10), (''report'', 6 / 10), (''other'', 5 / 10)]"

text \<open>
  The order in which the cascade tests the categories, each with its test on the
  lowercased text and its confidence.
\<close>

definition cascade :: "(string \<times> (string \<Rightarrow> bool) \<times> real) list" where
  "cascade =
     [(''invoice'',
         \<lambda>text_lower. any_in invoice_keywords text_lower \<and> any_in invoice_amount_keywords text_lower,
         8 / 10),
      (''contract'', \<lambda>text_lower. any_in contract_keywords text_lower, 7 / 10),
      (''resume'',
         \<lambda>text_lower. any_in resume_keywords text_lower \<and> any_in resume_background_keywords text_lower,
         75 / 100),
      (''legal_document'', \<lambda>text_lower. any_in legal_keywords text_lower, 7 / 10),
      (''report'', \<lambda>text_lower. any_in report_keywords text_lower, 6 / 10)]"

text \<open>
  A service for the concrete runs below. \<^verbatim>\<open>str.split()\<close> stands for the tokenizer,
  which cuts a text of letters and single spaces at the spaces; step 1a of the Porter
  algorithm (SSES to SS, IES to I, SS to SS, S to nothing) stands for the stemmer; the
  stop words are the constructor's own fallback list.
\<close>

fun split_from :: "string \<Rightarrow> string \<Rightarrow> string list" where
  "split_from [] word = (if word = [] then [] else [word])"
| "split_from (c # cs) word =
     (if isspace c then (if word = [] then split_from cs [] else word # split_from cs [])
      else split_from cs (word @ [c]))"

definition split :: "string \<Rightarrow> string list" where
  "split s = split_from s []"

definition porter_step_1a :: "string \<Rightarrow> string" where
  "porter_step_1a word =
     (if suffix ''sses'' word then take (length word - 2) word
      else if suffix ''ies'' word then take (length word - 2) word
      else if suffix ''ss'' word then word
      else if suffix ''s'' word then take (length word - 1) word
      else word)"

definition sample_service ::
  "(string \<Rightarrow> exn + string \<times> (string \<times> real) list) option \<Rightarrow> classification_service" where
  "sample_service model =
     \<lparr>cs_model = model,
      cs_word_tokenize = (\<lambda>text. Inr (split text)),
      cs_stop_words = fallback_stop_words,
      cs_stem = porter_step_1a\<rparr>"

section \<open>Gemini classifier (backend/modules/classification/gemini\_classification.py)\<close>

record gemini_result =
  gr_success :: bool
  gr_error :: "string option"
  gr_document_name :: string
  gr_predicted_type :: string
  gr_confidence :: real
  gr_reasoning :: "string option"
  gr_method :: "string option"

text \<open>
  The classifier after \<^verbatim>\<open>__init__\<close>: whether the API was initialised, and
  \<^verbatim>\<open>_classify_with_gemini\<close>, the remote call with the decoding of its answer, which
  returns a result or raises.
\<close>

record gemini_classifier =
  is_available :: bool
  classify_with_gemini :: "string \<Rightarrow> string \<Rightarrow> exn + gemini_result"

definition mock_classifications :: "(string \<times> string \<times> real) list" where
  "mock_classifications =
     [(''invoice'', ''Invoice'', 92 / 100),
      (''purchase_order'', ''Purchase Order'', 90 / 100),
      (''report'', ''Report'', 85 / 100),
      (''policy_circular'', ''Policy / Circular'', 88 / 100),
      (''regulatory_compliance'', ''Regulatory / Compliance'', 87 / 100),
      (''other'', ''Other'', 75 / 100)]"

text \<open>\<^verbatim>\<open>max(scores, key=scores.get)\<close>: the first key, in insertion order, of maximal score.\<close>

fun best_key :: "(string \<times> nat) list \<Rightarrow> string \<times> nat \<Rightarrow> string \<times> nat" where
  "best_key [] best = best"
| "best_key ((k, v) # rest) (bk, bv) = (if bv < v then best_key rest (k, v) else best_key rest (bk, bv))"

definition mock_scores :: "string \<Rightarrow> (string \<times> nat) list" where
  "mock_scores text =
     [(''invoice'', keyword_score [''invoice'', ''bill'', ''payment'', ''amount due'', ''total'', ''$'',
          ''billing'', ''tax'', ''subtotal'', ''payable''] text),
      (''purchase_order'', keyword_score [''purchase order'', ''purchase request'', ''procurement'',
          ''vendor'', ''order'', ''material requisition'', ''supplier'', ''quote''] text),
      (''report'', keyword_score [''report'', ''analysis'', ''summary'', ''finding'', ''conclusion'',
          ''engineering report'', ''incident report'', ''investigation'', ''performance'', ''monthly'',
          ''quarterly''] text),
      (''policy_circular'', keyword_score [''policy'', ''procedure'', ''guideline'', ''circular'', ''sop'',
          ''standard operating'', ''handbook'', ''manual'', ''rule''] text),
      (''regulatory_compliance'', keyword_score [''regulatory'', ''compliance'', ''legal'', ''directive'',
          ''audit'', ''regulation'', ''statutory'', ''mandatory''] text)]"

text \<open>
  \<^verbatim>\<open>_classify_with_mock\<close>. The reasoning text is the source's without its leading
  warning sign, which is not an 8-bit character. Every key that can be chosen has an
  entry in the table, so the lookup always finds one and the last branch is never taken.
\<close>

definition classify_with_mock :: "string \<Rightarrow> string \<Rightarrow> gemini_result" where
  "classify_with_mock text document_name =
     (let scores = mock_scores text;
          (best_category, max_score) = best_key (tl scores) (hd scores);
          chosen = (if max_score > 0 then best_category else ''other'')
      in case map_of mock_classifications chosen of
           Some (predicted_type, conf) \<Rightarrow>
             \<lparr>gr_success = True, gr_error = None, gr_document_name = document_name,
              gr_predicted_type = predicted_type, gr_confidence = conf,
              gr_reasoning = Some (''DEMO MODE: This is NOT real Gemini AI classification. ''
                @ ''Set GEMINI_API_KEY for actual AI-powered classification.''),
              gr_method = Some ''mock_demo''\<rparr>
         | None \<Rightarrow>
             \<lparr>gr_success = True, gr_error = None, gr_document_name = document_name,
              gr_predicted_type = ''Other'', gr_confidence = 75 / 100,
              gr_reasoning = None, gr_method = Some ''mock_demo''\<rparr>)"

text \<open>\<^verbatim>\<open>GeminiDocumentClassifier.classify_document\<close>\<close>

definition gemini_classify_document :: "gemini_classifier \<Rightarrow> string py \<Rightarrow> string \<Rightarrow> gemini_result" where
  "gemini_classify_document g text document_name =
     (case text of
        PyNone \<Rightarrow>
          \<lparr>gr_success = False, gr_error = Some ''Text too short for classification'',
           gr_document_name = document_name, gr_predicted_type = ''Other'', gr_confidence = 0,
           gr_reasoning = None, gr_method = None\<rparr>
      | Val t \<Rightarrow>
          if t = [] \<or> length (strip t) < 10
          then \<lparr>gr_success = False, gr_error = Some ''Text too short for classification'',
                gr_document_name = document_name, gr_predicted_type = ''Other'', gr_confidence = 0,
                gr_reasoning = None, gr_method = None\<rparr>
          else if is_available g
          then (case classify_with_gemini g t document_name of
                  Inr result \<Rightarrow> result
                | Inl e \<Rightarrow> classify_with_mock t document_name)
          else classify_with_mock t document_name)"

section \<open>Notification dispatch (backend/modules/routing/document\_routing.py)\<close>

record notification_outcome =
  no_method :: string
  no_success :: bool
  no_error :: "string option"
  no_recipient :: "string py option"
  no_status_code :: "nat option"

text \<open>
  The mail server and the webhook endpoint are outside the repository. \<open>smtp_send\<close> is
  the SMTP session (connect, starttls, login, sendmail, quit) for a message;
  \<open>http_post\<close> is \<^verbatim>\<open>requests.post\<close> followed by \<^verbatim>\<open>raise_for_status\<close>, which
  returns the status code. Each returns or raises.
\<close>

record transports =
  smtp_send :: "document_info \<Rightarrow> routing_result \<Rightarrow> exn + unit"
  http_post :: "string \<Rightarrow> document_info \<Rightarrow> routing_result \<Rightarrow> exn + nat"

text \<open>
  \<^verbatim>\<open>_create_email_body\<close>. Of the page it builds, the part that can raise is the
  summary excerpt: slicing \<^verbatim>\<open>None\<close> is a TypeError. The excerpt is returned.
\<close>

definition create_email_body :: "document_info \<Rightarrow> exn + string" where
  "create_email_body document =
     (case dict_get (di_summary document) (Val ''No summary available'') of
        PyNone \<Rightarrow> Inl (TypeError (quoted ''NoneType'' @ '' object is not subscriptable''))
      | Val summary \<Rightarrow> Inr (take 500 summary @ ''...''))"

text \<open>\<^verbatim>\<open>_send_email_notification\<close>\<close>

definition send_email_notification ::
  "routing_service \<Rightarrow> transports \<Rightarrow> document_info \<Rightarrow> routing_result \<Rightarrow> notification_outcome" where
  "send_email_notification svc tr document routing =
     (if \<not> truthy (email_user svc) \<or> \<not> truthy (email_password svc)
      then \<lparr>no_method = ''email'', no_success = False,
            no_error = Some ''Email credentials not configured'',
            no_recipient = None, no_status_code = None\<rparr>
      else
        (case create_email_body document of
           Inl e \<Rightarrow> \<lparr>no_method = ''email'', no_success = False, no_error = Some (str_exn e),
                     no_recipient = None, no_status_code = None\<rparr>
         | Inr body \<Rightarrow>
             (case smtp_send tr document routing of
                Inl e \<Rightarrow> \<lparr>no_method = ''email'', no_success = False, no_error = Some (str_exn e),
                          no_recipient = None, no_status_code = None\<rparr>
              | Inr _ \<Rightarrow> \<lparr>no_method = ''email'', no_success = True, no_error = None,
                          no_recipient = Some (department_email routing),
                          no_status_code = None\<rparr>)))"

text \<open>\<^verbatim>\<open>_send_webhook_notification\<close>; it is only called with a URL that is set.\<close>

definition send_webhook_notification ::
  "routing_service \<Rightarrow> transports \<Rightarrow> document_info \<Rightarrow> routing_result \<Rightarrow> notification_outcome" where
  "send_webhook_notification svc tr document routing =
     (case http_post tr (format_str (webhook_url svc)) document routing of
        Inl e \<Rightarrow> \<lparr>no_method = ''webhook'', no_success = False, no_error = Some (str_exn e),
                  no_recipient = None, no_status_code = None\<rparr>
      | Inr status_code \<Rightarrow>
          \<lparr>no_method = ''webhook'', no_success = True, no_error = None,
           no_recipient = None, no_status_code = Some status_code\<rparr>)"

record route_outcome =
  ro_success :: bool
  ro_routing_result :: "routing_result option"
  ro_notifications_sent :: "notification_outcome list option"
  ro_message :: "string option"
  ro_error :: "string option"

text \<open>\<^verbatim>\<open>'email' in self.notification_methods\<close> raises when the methods are \<^verbatim>\<open>None\<close>.\<close>

definition method_configured :: "string \<Rightarrow> string list py \<Rightarrow> exn + bool" where
  "method_configured method methods =
     (case methods of
        PyNone \<Rightarrow> Inl (TypeError (''argument of type '' @ quoted ''NoneType'' @ '' is not iterable''))
      | Val ms \<Rightarrow> Inr (method \<in> set ms))"

text \<open>
  The \<^verbatim>\<open>try\<close> block of \<^verbatim>\<open>route_document\<close>, from the first channel on, for the
  routing result in force. \<^verbatim>\<open>_log_routing_action\<close> only writes to the process log,
  inside its own handler, and is left out.
\<close>

definition route_document_try ::
  "routing_service \<Rightarrow> transports \<Rightarrow> document_info \<Rightarrow> routing_result \<Rightarrow> exn + route_outcome" where
  "route_document_try svc tr document_info routing =
     (case method_configured ''email'' (notification_methods svc) of
        Inl e \<Rightarrow> Inl e
      | Inr email \<Rightarrow>
          let results1 =
                (if email then [send_email_notification svc tr document_info routing] else [])
          in case method_configured ''webhook'' (notification_methods svc) of
               Inl e \<Rightarrow> Inl e
             | Inr webhook \<Rightarrow>
                 let results2 =
                       (if webhook \<and> truthy (webhook_url svc)
                        then results1 @ [send_webhook_notification svc tr document_info routing]
                        else results1)
                 in Inr \<lparr>ro_success = True, ro_routing_result = Some routing,
                         ro_notifications_sent = Some results2,
                         ro_message = Some (''Document routed to '' @ department_name routing),
                         ro_error = None\<rparr>)"

text \<open>
  \<^verbatim>\<open>route_document(document_info, routing_result=None)\<close>: a routing result that is
  not given is determined first; the handler turns an exception into a failure outcome.
\<close>

definition route_document ::
  "routing_service \<Rightarrow> transports \<Rightarrow> string \<Rightarrow> document_info \<Rightarrow> routing_result option \<Rightarrow> route_outcome" where
  "route_document svc tr now document_info routing_result =
     (let routing = (case routing_result of
                       None \<Rightarrow> determine_department svc now document_info
                     | Some given \<Rightarrow> given)
      in case route_document_try svc tr document_info routing of
           Inr outcome \<Rightarrow> outcome
         | Inl e \<Rightarrow>
             \<lparr>ro_success = False, ro_routing_result = Some routing, ro_notifications_sent = None,
              ro_message = None, ro_error = Some (str_exn e)\<rparr>)"

text \<open>Transports for the concrete runs below: a mail server that refuses the login and an
  endpoint that answers 200.\<close>

definition sample_transports :: transports where
  "sample_transports =
     \<lparr>smtp_send = (\<lambda>document routing. Inl (Exception ''Username and Password not accepted'')),
      http_post = (\<lambda>url document routing. Inr 200)\<rparr>"

section \<open>Summarization service (backend/modules/summarization/text\_summarization.py)\<close>

text \<open>
  What the service holds after \<^verbatim>\<open>__init__\<close>. The sentence and word tokenizers, the stop
  words and the stemmer (NLTK), the TextRank summarizer (gensim) and the transformer
  pipeline are libraries outside the repository, so they are fields of the service. A
  tokenizer raises when its data files are missing; the transformer is \<open>None\<close> when
  it could not be initialised.
\<close>

record summarization_service =
  ss_sent_tokenize :: "string \<Rightarrow> exn + string list"
  ss_word_tokenize :: "string \<Rightarrow> exn + string list"
  ss_stop_words :: "string list"
  ss_stem :: "string \<Rightarrow> string"
  ss_gensim_summarize :: "string \<Rightarrow> real \<Rightarrow> exn + string"
  ss_transformer_summarizer :: "(string \<Rightarrow> nat \<Rightarrow> nat \<Rightarrow> exn + string) option"

text \<open>
  On the code points 0 to 255: \<^verbatim>\<open>\w\<close> of a text pattern matches the letters, the
  digits and other numeric signs, and the underscore; \<^verbatim>\<open>str.isalpha\<close> holds of
  a non-empty word of letters.
\<close>

definition isalpha_char :: "char \<Rightarrow> bool" where
  "isalpha_char c =
     (let n = (of_char c :: nat)
      in (65 \<le> n \<and> n \<le> 90) \<or> (97 \<le> n \<and> n \<le> 122) \<or> n = 170 \<or> n = 181 \<or> n = 186
         \<or> (192 \<le> n \<and> n \<le> 214) \<or> (216 \<le> n \<and> n \<le> 246) \<or> (248 \<le> n \<and> n \<le> 255))"

definition is_word_char :: "char \<Rightarrow> bool" where
  "is_word_char c =
     (let n = (of_char c :: nat)
      in isalpha_char c \<or> (48 \<le> n \<and> n \<le> 57) \<or> n = 95 \<or> n = 178 \<or> n = 179 \<or> n = 185
         \<or> (188 \<le> n \<and> n \<le> 190))"

definition isalpha :: "string \<Rightarrow> bool" where
  "isalpha word = (word \<noteq> [] \<and> list_all isalpha_char word)"

text \<open>\<^verbatim>\<open>SummarizationService.preprocess_text\<close>\<close>

definition summary_preprocess_text :: "string \<Rightarrow> string" where
  "summary_preprocess_text text =
     (let text1 = collapse_whitespace text;
          text2 = filter (\<lambda>c. is_word_char c \<or> isspace c \<or> c \<in> set ''.!?'') text1
      in strip text2)"

text \<open>
  A dictionary with insertion order: assigning to a key that is present keeps its place.
  \<^verbatim>\<open>Counter(words)\<close> counts with it.
\<close>

fun dict_set :: "('k \<times> 'v) list \<Rightarrow> 'k \<Rightarrow> 'v \<Rightarrow> ('k \<times> 'v) list" where
  "dict_set [] k v = [(k, v)]"
| "dict_set ((k', v') # rest) k v =
     (if k' = k then (k, v) # rest else (k', v') # dict_set rest k v)"

definition counter :: "string list \<Rightarrow> (string \<times> nat) list" where
  "counter words =
     fold (\<lambda>word counts.
             dict_set counts word (case map_of counts word of None \<Rightarrow> 1 | Some n \<Rightarrow> n + 1))
       words []"

text \<open>The content words of a text: \<^verbatim>\<open>[w for w in word_tokenize(text.lower())
  if w not in self.stop_words and w.isalpha()]\<close>\<close>

definition content_words :: "summarization_service \<Rightarrow> string \<Rightarrow> exn + string list" where
  "content_words svc text =
     (case ss_word_tokenize svc (lower text) of
        Inl e \<Rightarrow> Inl e
      | Inr words \<Rightarrow>
          Inr (filter (\<lambda>word. word \<notin> set (ss_stop_words svc) \<and> isalpha word) words))"

text \<open>
  The scoring loop that \<^verbatim>\<open>calculate_sentence_scores\<close> and the keyword strategy share:
  a sentence with content words gets the mean weight of these words, a word without
  weight counting 0. Scores are exact reals here and floats in the source.
\<close>

fun sentence_scores ::
  "summarization_service \<Rightarrow> (string \<times> real) list \<Rightarrow> string list \<Rightarrow> (string \<times> real) list
     \<Rightarrow> exn + (string \<times> real) list" where
  "sentence_scores svc weights [] scores = Inr scores"
| "sentence_scores svc weights (sentence # rest) scores =
     (case content_words svc sentence of
        Inl e \<Rightarrow> Inl e
      | Inr words \<Rightarrow>
          if length words > 0
          then sentence_scores svc weights rest
                 (dict_set scores sentence
                    (sum_list (map (\<lambda>word. case map_of weights word of None \<Rightarrow> 0 | Some w \<Rightarrow> w)
                                 words)
                     / real (length words)))
          else sentence_scores svc weights rest scores)"

text \<open>\<^verbatim>\<open>sorted(scores.items(), key=lambda x: x[1], reverse=True)[:num_sentences]\<close>:
  a stable sort by falling score.\<close>

definition top_sentences :: "(string \<times> real) list \<Rightarrow> nat \<Rightarrow> string list" where
  "top_sentences scores num_sentences =
     map fst (take num_sentences (sort_key (\<lambda>item. - snd item) scores))"

text \<open>
  The loop that puts the chosen sentences back into the order of the document and
  stops once \<open>num_sentences\<close> of them are collected.
\<close>

fun select_sentences :: "string list \<Rightarrow> string list \<Rightarrow> nat \<Rightarrow> string list \<Rightarrow> string list" where
  "select_sentences [] chosen num_sentences summary_sentences = summary_sentences"
| "select_sentences (sentence # rest) chosen num_sentences summary_sentences =
     (let summary_sentences' =
            (if sentence \<in> set chosen then summary_sentences @ [sentence] else summary_sentences)
      in if length summary_sentences' = num_sentences then summary_sentences'
         else select_sentences rest chosen num_sentences summary_sentences')"

text \<open>The body of the \<^verbatim>\<open>try\<close> block of \<^verbatim>\<open>extractive_summarization\<close>, after
  preprocessing.\<close>

definition extractive_try :: "summarization_service \<Rightarrow> string \<Rightarrow> nat \<Rightarrow> exn + string" where
  "extractive_try svc text num_sentences =
     (case ss_sent_tokenize svc text of
        Inl e \<Rightarrow> Inl e
      | Inr sentences \<Rightarrow>
          if length sentences \<le> num_sentences then Inr (join_space sentences)
          else
            (case content_words svc text of
               Inl e \<Rightarrow> Inl e
             | Inr words \<Rightarrow>
                 let word_freq = counter (map (ss_stem svc) words);
                     max_freq = (if word_freq = [] then 1 else fold max (map snd word_freq) 0);
                     weights = map (\<lambda>(word, n). (word, real n / real max_freq)) word_freq
                 in case sentence_scores svc weights sentences [] of
                      Inl e \<Rightarrow> Inl e
                    | Inr scores \<Rightarrow>
                        Inr (join_space
                               (select_sentences sentences (top_sentences scores num_sentences)
                                  num_sentences []))))"

text \<open>
  \<^verbatim>\<open>extractive_summarization\<close>: the handler returns the preprocessed text, cut to 500
  characters with three dots appended when it is longer.
\<close>

definition extractive_summarization :: "summarization_service \<Rightarrow> string \<Rightarrow> nat \<Rightarrow> string" where
  "extractive_summarization svc text num_sentences =
     (let text = summary_preprocess_text text
      in case extractive_try svc text num_sentences of
           Inr summary \<Rightarrow> summary
         | Inl e \<Rightarrow> if length text > 500 then take 500 text @ ''...'' else text)"

text \<open>\<^verbatim>\<open>keyword_based_summarization\<close>: the weight of a word is its frequency times the
  logarithm of the inverse frequency; the handler falls back to the extractive strategy,
  with three sentences, on the preprocessed text.\<close>

definition keyword_try :: "summarization_service \<Rightarrow> string \<Rightarrow> nat \<Rightarrow> exn + string" where
  "keyword_try svc text num_sentences =
     (case ss_sent_tokenize svc text of
        Inl e \<Rightarrow> Inl e
      | Inr sentences \<Rightarrow>
          if length sentences \<le> num_sentences then Inr (join_space sentences)
          else
            (case content_words svc text of
               Inl e \<Rightarrow> Inl e
             | Inr words \<Rightarrow>
                 let word_freq = counter words;
                     total_words = length words;
                     word_importance =
                       map (\<lambda>(word, freq).
                              (word, (real freq / real total_words)
                                       * ln (real total_words / real freq)))
                         word_freq
                 in case sentence_scores svc word_importance sentences [] of
                      Inl e \<Rightarrow> Inl e
                    | Inr scores \<Rightarrow>
                        Inr (join_space
                               (select_sentences sentences (top_sentences scores num_sentences)
                                  num_sentences []))))"

definition keyword_based_summarization :: "summarization_service \<Rightarrow> string \<Rightarrow> nat \<Rightarrow> string" where
  "keyword_based_summarization svc text num_sentences =
     (let text = summary_preprocess_text text
      in case keyword_try svc text num_sentences of
           Inr summary \<Rightarrow> summary
         | Inl e \<Rightarrow> extractive_summarization svc text 3)"

text \<open>\<^verbatim>\<open>gensim_summarization\<close>\<close>

definition gensim_summarization :: "summarization_service \<Rightarrow> string \<Rightarrow> real \<Rightarrow> string" where
  "gensim_summarization svc text ratio =
     (let text = summary_preprocess_text text
      in if length (split text) < 20 then text
         else case ss_gensim_summarize svc text ratio of
                Inl e \<Rightarrow> extractive_summarization svc text 3
              | Inr summary \<Rightarrow>
                  if strip summary = [] then extractive_summarization svc text 3 else summary)"

text \<open>\<^verbatim>\<open>abstractive_summarization\<close>\<close>

definition abstractive_summarization ::
  "summarization_service \<Rightarrow> string \<Rightarrow> nat \<Rightarrow> nat \<Rightarrow> string" where
  "abstractive_summarization svc text max_length min_length =
     (case ss_transformer_summarizer svc of
        None \<Rightarrow> extractive_summarization svc text 3
      | Some summarizer \<Rightarrow>
          let text1 = summary_preprocess_text text;
              text2 = (if length text1 > 1024 then take 1024 text1 else text1)
          in case summarizer text2 max_length min_length of
               Inl e \<Rightarrow> extractive_summarization svc text2 3
             | Inr summary \<Rightarrow> summary)"

record summary_result =
  sr_success :: bool
  sr_error :: "string option"
  sr_summary :: "string py"
  sr_method_used :: string
  sr_original_length :: nat
  sr_summary_length :: nat
  sr_compression_ratio :: "real option"

text \<open>The keyword arguments of \<^verbatim>\<open>generate_summary\<close>, each read with a default.\<close>

record summary_kwargs =
  kw_num_sentences :: "nat option"
  kw_max_length :: "nat option"
  kw_min_length :: "nat option"
  kw_ratio :: "real option"

definition no_kwargs :: summary_kwargs where
  "no_kwargs = \<lparr>kw_num_sentences = None, kw_max_length = None, kw_min_length = None,
                kw_ratio = None\<rparr>"

text \<open>
  \<^verbatim>\<open>generate_summary\<close>. For a text that is \<^verbatim>\<open>None\<close> the first return statement
  takes \<^verbatim>\<open>len(text)\<close>, which raises, and so does the handler: the exception leaves the
  call. For a string no step of the \<^verbatim>\<open>try\<close> block raises, every strategy having its
  own handler.
\<close>

definition generate_summary ::
  "summarization_service \<Rightarrow> string py \<Rightarrow> string \<Rightarrow> summary_kwargs \<Rightarrow> exn + summary_result" where
  "generate_summary svc text method kwargs =
     (case text of
        PyNone \<Rightarrow>
          Inl (TypeError (''object of type '' @ quoted ''NoneType'' @ '' has no len()''))
      | Val t \<Rightarrow>
          if t = [] \<or> length (strip t) < 10
          then Inr \<lparr>sr_success = False, sr_error = Some ''Text too short to summarize'',
                    sr_summary = Val t, sr_method_used = method,
                    sr_original_length = length t, sr_summary_length = length t,
                    sr_compression_ratio = None\<rparr>
          else
            let method =
                  (if method = ''auto''
                   then (if length (split t) > 500 \<and> ss_transformer_summarizer svc \<noteq> None
                         then ''abstractive''
                         else if length (split t) > 100 then ''gensim''
                         else ''extractive'')
                   else method);
                summary =
                  (if method = ''extractive''
                   then extractive_summarization svc t
                          (case kw_num_sentences kwargs of None \<Rightarrow> 3 | Some n \<Rightarrow> n)
                   else if method = ''abstractive''
                   then abstractive_summarization svc t
                          (case kw_max_length kwargs of None \<Rightarrow> 150 | Some n \<Rightarrow> n)
                          (case kw_min_length kwargs of None \<Rightarrow> 50 | Some n \<Rightarrow> n)
                   else if method = ''gensim''
                   then gensim_summarization svc t
                          (case kw_ratio kwargs of None \<Rightarrow> 3 / 10 | Some r \<Rightarrow> r)
                   else if method = ''keyword''
                   then keyword_based_summarization svc t
                          (case kw_num_sentences kwargs of None \<Rightarrow> 3 | Some n \<Rightarrow> n)
                   else extractive_summarization svc t 3)
            in Inr \<lparr>sr_success = True, sr_error = None, sr_summary = Val summary,
                    sr_method_used = method, sr_original_length = length t,
                    sr_summary_length = length summary,
                    sr_compression_ratio = Some (real (length summary) / real (length t))\<rparr>)"

text \<open>
  A service for the concrete runs below: sentences end at a full stop, exclamation or
  question mark before a space or the end of the text, words are cut at whitespace, and
  the TextRank summarizer returns the first sentence.
\<close>

fun split_sentences_from :: "string \<Rightarrow> string \<Rightarrow> string list" where
  "split_sentences_from [] sentence = (if sentence = [] then [] else [sentence])"
| "split_sentences_from (c # cs) sentence =
     (if isspace c \<and> sentence = [] then split_sentences_from cs []
      else if c \<in> set ''.!?'' \<and> (case cs of [] \<Rightarrow> True | c' # _ \<Rightarrow> isspace c')
      then (sentence @ [c]) # split_sentences_from cs []
      else split_sentences_from cs (sentence @ [c]))"

definition sample_summarizer :: summarization_service where
  "sample_summarizer =
     \<lparr>ss_sent_tokenize = (\<lambda>text. Inr (split_sentences_from text [])),
      ss_word_tokenize = (\<lambda>text. Inr (split text)),
      ss_stop_words = fallback_stop_words,
      ss_stem = porter_step_1a,
      ss_gensim_summarize =
        (\<lambda>text ratio. Inr (case split_sentences_from text [] of [] \<Rightarrow> [] | first # _ \<Rightarrow> first)),
      ss_transformer_summarizer = None\<rparr>"

section \<open>Pipeline (app.py)\<close>

text \<open>The columns of a \<^verbatim>\<open>Document\<close> row that the pipeline reads or writes.\<close>

record document =
  doc_file_path :: string
  doc_status :: string
  doc_extracted_text :: "string py"
  doc_summary :: "string py"
  doc_classification :: "string py"
  doc_confidence_score :: "real py"
  doc_department :: "string py"

text \<open>
  The message of a log row. The message of a completed classification is the formatted
  string \<^verbatim>\<open>f"Classified as {category} (confidence: {confidence:.2f})"\<close>; it is kept
  as its two arguments.
\<close>

datatype log_message = Message string | Classified_as string real

record processing_log =
  pl_module :: string
  pl_status :: string
  pl_message :: log_message

record extraction_result =
  er_success :: bool
  er_text :: string
  er_error :: "string option"

text \<open>
  The services of the application. Text extraction and the document store are external:
  \<open>app_process_document\<close> is \<^verbatim>\<open>extraction_service.process_document\<close> and
  \<open>app_store_extracted_data\<close> is \<^verbatim>\<open>mongodb_manager.store_extracted_data\<close>; each
  returns or raises. The other services are the ones above.
\<close>

record app =
  app_process_document :: "string \<Rightarrow> exn + extraction_result"
  app_store_extracted_data :: "extraction_result \<Rightarrow> exn + unit"
  app_classification_service :: classification_service
  app_summarization_service :: summarization_service
  app_routing_service :: routing_service
  app_transports :: transports

datatype stage = Extraction | Classification | Summarization | Routing

text \<open>
  A run: the row, the log rows added so far in order, the stages whose service has been
  called, and the outcome of the routing call once there is one.
\<close>

record run =
  run_document :: document
  run_logs :: "processing_log list"
  run_calls :: "stage list"
  run_routing :: "route_outcome option"

definition add_log :: "string \<Rightarrow> string \<Rightarrow> log_message \<Rightarrow> run \<Rightarrow> run" where
  "add_log module_name status message r =
     r\<lparr>run_logs := run_logs r
          @ [\<lparr>pl_module = module_name, pl_status = status, pl_message = message\<rparr>]\<rparr>"

definition called :: "stage \<Rightarrow> run \<Rightarrow> run" where
  "called stage r = r\<lparr>run_calls := run_calls r @ [stage]\<rparr>"

text \<open>
  Step 1. \<open>Inl\<close> is the value that the failed step returns from the pipeline; the run
  that comes with it has the failure row and the status \<open>failed\<close>. Storing the data
  comes after the text is put on the row, so an exception of the store leaves the text.
\<close>

definition extraction_step :: "app \<Rightarrow> run \<Rightarrow> (string + unit) \<times> run" where
  "extraction_step a r =
     (let r1 = called Extraction r;
          failed = (\<lambda>e r'.
            (Inl (''Text extraction failed: '' @ str_exn e),
             (add_log ''extraction'' ''failed'' (Message (str_exn e)) r')
               \<lparr>run_document := (run_document r')\<lparr>doc_status := ''failed''\<rparr>\<rparr>))
      in case app_process_document a (doc_file_path (run_document r1)) of
           Inl e \<Rightarrow> failed e r1
         | Inr extraction_result \<Rightarrow>
             if er_success extraction_result
             then
               let r2 = r1\<lparr>run_document :=
                          (run_document r1)\<lparr>doc_extracted_text := Val (er_text extraction_result)\<rparr>\<rparr>
               in case app_store_extracted_data a extraction_result of
                    Inl e \<Rightarrow> failed e r2
                  | Inr _ \<Rightarrow>
                      (Inr (), add_log ''extraction'' ''completed''
                                 (Message ''Text extraction completed successfully'') r2)
             else failed (Exception (case er_error extraction_result of
                                      None \<Rightarrow> ''Text extraction failed'' | Some m \<Rightarrow> m)) r1)"

text \<open>Step 2. A result without success is turned into an exception, and any exception
  into a failure row; the row of the document is then left as it is.\<close>

definition classification_step :: "app \<Rightarrow> run \<Rightarrow> run" where
  "classification_step a r =
     (let r1 = called Classification r
      in case fst (classify_document (app_classification_service a)
                     (doc_extracted_text (run_document r1))) of
           Inl e \<Rightarrow> add_log ''classification'' ''failed'' (Message (str_exn e)) r1
         | Inr classification_result \<Rightarrow>
             if cr_success classification_result
             then add_log ''classification'' ''completed''
                    (Classified_as (cr_category classification_result)
                       (cr_confidence classification_result))
                    (r1\<lparr>run_document := (run_document r1)
                          \<lparr>doc_classification := Val (cr_category classification_result),
                           doc_confidence_score := Val (cr_confidence classification_result)\<rparr>\<rparr>)
             else add_log ''classification'' ''failed'' (Message ''Classification failed'') r1)"

text \<open>Step 3.\<close>

definition summarization_step :: "app \<Rightarrow> run \<Rightarrow> run" where
  "summarization_step a r =
     (let r1 = called Summarization r
      in case generate_summary (app_summarization_service a)
                (doc_extracted_text (run_document r1)) ''auto'' no_kwargs of
           Inl e \<Rightarrow> add_log ''summarization'' ''failed'' (Message (str_exn e)) r1
         | Inr summary_result \<Rightarrow>
             if sr_success summary_result
             then add_log ''summarization'' ''completed''
                    (Message (''Summary generated using '' @ sr_method_used summary_result
                              @ '' method''))
                    (r1\<lparr>run_document := (run_document r1)
                          \<lparr>doc_summary := sr_summary summary_result\<rparr>\<rparr>)
             else add_log ''summarization'' ''failed''
                    (Message (case sr_error summary_result of
                                None \<Rightarrow> ''Summarization failed'' | Some m \<Rightarrow> m)) r1)"

text \<open>
  Step 4. Every key of \<^verbatim>\<open>document_info\<close> is present and holds the column of the
  row, which is \<^verbatim>\<open>None\<close> when the column was never set. A successful outcome of
  \<open>route_document\<close> always carries the decision, so the branch without one is never
  taken.
\<close>

definition routing_step :: "app \<Rightarrow> string \<Rightarrow> run \<Rightarrow> run" where
  "routing_step a now r =
     (let r1 = called Routing r;
          document_info =
            \<lparr>di_classification = Some (doc_classification (run_document r1)),
             di_confidence = Some (doc_confidence_score (run_document r1)),
             di_extracted_text = Some (doc_extracted_text (run_document r1)),
             di_summary = Some (doc_summary (run_document r1))\<rparr>;
          routing_result =
            route_document (app_routing_service a) (app_transports a) now document_info None;
          r2 = r1\<lparr>run_routing := Some routing_result\<rparr>
      in if ro_success routing_result
         then (case ro_routing_result routing_result of
                 None \<Rightarrow>
                   add_log ''routing'' ''failed'' (Message (quoted ''routing_result'')) r2
               | Some decision \<Rightarrow>
                   add_log ''routing'' ''completed''
                     (Message (''Routed to '' @ department_name decision))
                     (r2\<lparr>run_document := (run_document r2)
                           \<lparr>doc_department := Val (department_id decision)\<rparr>\<rparr>))
         else add_log ''routing'' ''failed''
                (Message (case ro_error routing_result of
                            None \<Rightarrow> ''Routing failed'' | Some m \<Rightarrow> m)) r2)"

text \<open>
  \<^verbatim>\<open>process_document_pipeline\<close> for the row that the query finds, \<open>None\<close> when there
  is none. The calls of the database session are taken not to raise, so the outer
  handler of the source, which marks the document failed on any other exception, has
  nothing to catch.
\<close>

definition process_document_pipeline ::
  "app \<Rightarrow> string \<Rightarrow> document option \<Rightarrow> (string + unit) \<times> run option" where
  "process_document_pipeline a now found =
     (case found of
        None \<Rightarrow> (Inl ''Document not found'', None)
      | Some document \<Rightarrow>
          let r0 = add_log ''pipeline'' ''started'' (Message ''Document processing started'')
                     \<lparr>run_document = document\<lparr>doc_status := ''processing''\<rparr>,
                      run_logs = [], run_calls = [], run_routing = None\<rparr>
          in case extraction_step a r0 of
               (Inl error, r1) \<Rightarrow> (Inl error, Some r1)
             | (Inr _, r1) \<Rightarrow>
                 let r2 = classification_step a r1;
                     r3 = summarization_step a r2;
                     r4 = routing_step a now r3;
                     r5 = add_log ''pipeline'' ''completed''
                            (Message ''Document processing completed successfully'')
                            (r4\<lparr>run_document := (run_document r4)\<lparr>doc_status := ''completed''\<rparr>\<rparr>)
                 in (Inr (), Some r5))"

text \<open>A freshly uploaded row, and an application for the concrete runs below: the text
  of the file is its path, the store accepts, no model is loaded, no mail is configured.\<close>

definition uploaded :: "string \<Rightarrow> document" where
  "uploaded path =
     \<lparr>doc_file_path = path, doc_status = ''pending'', doc_extracted_text = PyNone,
      doc_summary = PyNone, doc_classification = PyNone, doc_confidence_score = PyNone,
      doc_department = PyNone\<rparr>"

definition sample_app :: "(string \<Rightarrow> exn + extraction_result) \<Rightarrow> app" where
  "sample_app extract =
     \<lparr>app_process_document = extract,
      app_store_extracted_data = (\<lambda>extraction_result. Inr ()),
      app_classification_service = sample_service None,
      app_summarization_service = sample_summarizer,
      app_routing_service = DocumentRoutingService default_config,
      app_transports = sample_transports\<rparr>"

section \<open>Verified properties\<close>

subsection \<open>The routing decision\<close>

lemma sublist_lower_iff:
  "sublist k (lower t) \<longleftrightarrow> (\<exists>m. sublist m t \<and> lower m = k)"
proof
  assume "sublist k (lower t)"
  then obtain m where "sublist m t" and "k = map lower_char m"
    unfolding lower_def using sublist_map_rightE by blast
  then show "\<exists>m. sublist m t \<and> lower m = k"
    by (auto simp: lower_def)
next
  assume "\<exists>m. sublist m t \<and> lower m = k"
  then show "sublist k (lower t)"
    unfolding lower_def using map_mono_sublist by blast
qed

text \<open>
  C1. Whenever the confidence that \<open>determine_department\<close> reads (the entry of the
  document, or 0.0 when the key is absent) is a number strictly below the configured
  threshold 0.7, the decision names the fallback department \<open>archive\<close> and asks for
  review, whatever the category and the text are.
\<close>

theorem determine_department_low_confidence:
  assumes "dict_get (di_confidence document_info) (Val 0) = Val conf"
    and "conf < confidence_threshold (routing_rules (DocumentRoutingService cfg))"
  shows "confidence_threshold (routing_rules (DocumentRoutingService cfg)) = 7 / 10
    \<and> department_id (determine_department (DocumentRoutingService cfg) now document_info)
        = fallback_department (routing_rules (DocumentRoutingService cfg))
    \<and> department_id (determine_department (DocumentRoutingService cfg) now document_info) = ''archive''
    \<and> needs_review (determine_department (DocumentRoutingService cfg) now document_info)"
  using assms
  by (simp add: determine_department_def determine_department_try_def
      create_routing_result_def DocumentRoutingService_def load_routing_rules_def Let_def)

theorem determine_department_low_confidence_witness:
  "department_id (determine_department
       (DocumentRoutingService \<lparr>EMAIL_USER = PyNone, EMAIL_PASSWORD = PyNone, WEBHOOK_URL = PyNone,
          NOTIFICATION_METHODS = None\<rparr>)
       ''2024-01-15T10:00:00''
       \<lparr>di_classification = Some (Val ''invoice''), di_confidence = Some (Val (69 / 100)),
        di_extracted_text = Some (Val ''Invoice urgent''), di_summary = Some PyNone\<rparr>) = ''archive''
   \<and> needs_review (determine_department
       (DocumentRoutingService \<lparr>EMAIL_USER = PyNone, EMAIL_PASSWORD = PyNone, WEBHOOK_URL = PyNone,
          NOTIFICATION_METHODS = None\<rparr>)
       ''2024-01-15T10:00:00''
       \<lparr>di_classification = Some (Val ''invoice''), di_confidence = Some (Val (69 / 100)),
        di_extracted_text = Some (Val ''Invoice urgent''), di_summary = Some PyNone\<rparr>)"
proof -
  let ?cfg = "\<lparr>EMAIL_USER = PyNone, EMAIL_PASSWORD = PyNone, WEBHOOK_URL = PyNone,
          NOTIFICATION_METHODS = None\<rparr>"
  let ?doc = "\<lparr>di_classification = Some (Val ''invoice''), di_confidence = Some (Val (69 / 100 :: real)),
        di_extracted_text = Some (Val ''Invoice urgent''), di_summary = Some PyNone\<rparr>"
  have c: "dict_get (di_confidence ?doc) (Val 0) = Val (69 / 100)"
    by (simp add: dict_get_def)
  have lt: "(69 / 100 :: real) < confidence_threshold (routing_rules (DocumentRoutingService ?cfg))"
    by (simp add: DocumentRoutingService_def load_routing_rules_def)
  from determine_department_low_confidence [OF c lt, of "''2024-01-15T10:00:00''"]
  show ?thesis by blast
qed

text \<open>
  C7, as stated, fails on the low-confidence path: the decision is built with the default
  priority \<open>medium\<close> and the text is never searched for urgent keywords.
\<close>

theorem priority_low_confidence_counterexample:
  "list_ex (\<lambda>keyword. contains (lower ''URGENT: pay now'') keyword)
     (urgent_keywords (routing_rules (DocumentRoutingService default_config)))
   \<and> priority (determine_department (DocumentRoutingService default_config) ''2024-01-15T10:00:00''
        \<lparr>di_classification = Some (Val ''invoice''), di_confidence = Some (Val (1 / 2)),
         di_extracted_text = Some (Val ''URGENT: pay now''), di_summary = Some PyNone\<rparr>)
      = ''medium''
   \<and> ''medium'' \<noteq> ''urgent''"
  by (simp add: determine_department_def determine_department_try_def dict_get_def
      create_routing_result_def DocumentRoutingService_def load_routing_rules_def Let_def
      contains_def lower_def lower_char_def isupper_def sublist_code)

text \<open>
  C7, amended. For a decision on a numeric confidence and a text (each the entry of the
  document, or the default of its key when absent): below the threshold the priority is
  the default \<open>medium\<close>; otherwise it is \<open>urgent\<close> exactly when some substring
  of the text equals an urgent keyword once lowercased, and else the entry of the static
  category to priority table, \<open>low\<close> for a category without an entry.
\<close>

theorem determine_department_priority:
  assumes "dict_get (di_confidence document_info) (Val 0) = Val conf"
    and "dict_get (di_extracted_text document_info) (Val []) = Val t"
  shows "priority (determine_department (DocumentRoutingService cfg) now document_info) =
    (if conf < 7 / 10 then ''medium''
     else if \<exists>keyword \<in> set (urgent_keywords load_routing_rules).
               \<exists>m. sublist m t \<and> lower m = keyword
     then ''urgent''
     else (case dict_get (di_classification document_info) (Val ''other'') of
             PyNone \<Rightarrow> ''low''
           | Val c \<Rightarrow> (case map_of (priority_mapping load_routing_rules) c of
                        None \<Rightarrow> ''low'' | Some p \<Rightarrow> p)))"
proof -
  let ?svc = "DocumentRoutingService cfg"
  have rules: "routing_rules ?svc = load_routing_rules"
    by (simp add: DocumentRoutingService_def)
  have thr: "confidence_threshold load_routing_rules = 7 / 10"
    by (simp add: load_routing_rules_def)
  have urgent: "list_ex (\<lambda>keyword. contains (lower t) keyword) (urgent_keywords load_routing_rules)
      \<longleftrightarrow> (\<exists>keyword \<in> set (urgent_keywords load_routing_rules). \<exists>m. sublist m t \<and> lower m = keyword)"
    by (simp only: list_ex_iff contains_def sublist_lower_iff)
  show ?thesis
  proof (cases "conf < 7 / 10")
    case True
    with assms show ?thesis
      by (simp add: determine_department_def determine_department_try_def
          create_routing_result_def rules thr Let_def)
  next
    case False
    with assms show ?thesis
      unfolding urgent [symmetric]
      by (simp add: determine_department_def determine_department_try_def
          create_routing_result_def determine_priority_def check_sensitive_content_def
          rules thr Let_def split: py.splits option.splits)
  qed
qed

theorem determine_department_priority_witness:
  "dict_get (di_confidence \<lparr>di_classification = Some (Val ''report''),
       di_confidence = Some (Val (9 / 10)),
       di_extracted_text = Some (Val ''Please pay ASAP''), di_summary = Some PyNone\<rparr>) (Val 0)
     = Val (9 / 10)
   \<and> dict_get (di_extracted_text \<lparr>di_classification = Some (Val ''report''),
       di_confidence = Some (Val (9 / 10 :: real)),
       di_extracted_text = Some (Val ''Please pay ASAP''), di_summary = Some PyNone\<rparr>) (Val [])
     = Val ''Please pay ASAP''
   \<and> priority (determine_department (DocumentRoutingService default_config) ''2024-01-15T10:00:00''
        \<lparr>di_classification = Some (Val ''report''), di_confidence = Some (Val (9 / 10)),
         di_extracted_text = Some (Val ''Please pay ASAP''), di_summary = Some PyNone\<rparr>)
      = ''urgent''"
proof -
  let ?doc = "\<lparr>di_classification = Some (Val ''report''), di_confidence = Some (Val (9 / 10 :: real)),
       di_extracted_text = Some (Val ''Please pay ASAP''), di_summary = Some PyNone\<rparr>"
  have c: "dict_get (di_confidence ?doc) (Val 0) = Val (9 / 10)"
    by (simp add: dict_get_def)
  have t: "dict_get (di_extracted_text ?doc) (Val []) = Val ''Please pay ASAP''"
    by (simp add: dict_get_def)
  have "sublist ''ASAP'' ''Please pay ASAP'' \<and> lower ''ASAP'' = ''asap''"
    by (simp add: sublist_code lower_def lower_char_def isupper_def)
  then have ex: "\<exists>keyword \<in> set (urgent_keywords load_routing_rules).
      \<exists>m. sublist m ''Please pay ASAP'' \<and> lower m = keyword"
    by (intro bexI [of _ "''asap''"] exI [of _ "''ASAP''"]) (simp_all add: load_routing_rules_def)
  have "priority (determine_department (DocumentRoutingService default_config)
      ''2024-01-15T10:00:00'' ?doc) = ''urgent''"
    unfolding determine_department_priority [OF c t] using ex by (simp add: dict_get_def)
  with c t show ?thesis by blast
qed

subsection \<open>Rule-based classification\<close>

lemma any_in_score: "any_in keywords (lower text) \<longleftrightarrow> 0 < keyword_score keywords text"
  by (simp add: any_in_def keyword_score_def list_ex_iff filter_empty_conv)

lemma strip_Nil: "strip [] = []"
  by (simp add: strip_def)

text \<open>
  C4, as stated, fails: the strategy is a cascade of tests and not an argmax of keyword
  counts. On the text below it returns \<open>contract\<close>, whose list has one keyword in the
  text, although the list of \<open>legal_document\<close> has three.
\<close>

theorem rule_based_not_argmax_counterexample:
  "fst (rule_based_classification ''agreement court legal attorney'') = ''contract''
   \<and> keyword_score contract_keywords ''agreement court legal attorney'' = 1
   \<and> keyword_score legal_keywords ''agreement court legal attorney'' = 3"
  by (simp add: rule_based_classification_def any_in_def keyword_score_def contains_def
      lower_def lower_char_def isupper_def sublist_code invoice_keywords_def
      invoice_amount_keywords_def contract_keywords_def legal_keywords_def)

text \<open>
  C4, amended. For every text the rule-based strategy returns the first category, in the
  order invoice, contract, resume, legal\_document, report, whose test on the lowercased
  text holds, and \<open>other\<close> when none does; the confidence is the constant of the returned
  category; when no keyword of any list occurs the result is \<open>other\<close> with confidence 0.5;
  a returned category other than \<open>other\<close> has a keyword of its list in the text; and the
  text \<^verbatim>\<open>INVOICE #1 Total Due: $500.00\<close> gives \<open>invoice\<close> with confidence 0.8, at least 0.7.
\<close>

theorem rule_based_classification_cascade:
  "rule_based_classification text =
      (case find (\<lambda>(category, test, conf). test (lower text)) cascade of
         Some (category, test, conf) \<Rightarrow> (category, conf)
       | None \<Rightarrow> (''other'', 5 / 10))
   \<and> map_of heuristic_confidence (fst (rule_based_classification text))
      = Some (snd (rule_based_classification text))
   \<and> ((\<forall>(category, keywords) \<in> set category_keywords. keyword_score keywords text = 0)
        \<longrightarrow> rule_based_classification text = (''other'', 5 / 10))
   \<and> (\<forall>keywords. map_of category_keywords (fst (rule_based_classification text)) = Some keywords
        \<longrightarrow> 0 < keyword_score keywords text)
   \<and> rule_based_classification ''INVOICE #1 Total Due: $500.00'' = (''invoice'', 8 / 10)
   \<and> (7 / 10 :: real) \<le> 8 / 10"
proof -
  have first: "rule_based_classification text =
      (case find (\<lambda>(category, test, conf). test (lower text)) cascade of
         Some (category, test, conf) \<Rightarrow> (category, conf)
       | None \<Rightarrow> (''other'', 5 / 10))"
    by (simp add: rule_based_classification_def cascade_def Let_def)
  have conf: "map_of heuristic_confidence (fst (rule_based_classification text))
      = Some (snd (rule_based_classification text))"
    by (simp add: rule_based_classification_def heuristic_confidence_def Let_def)
  have zero: "(\<forall>(category, keywords) \<in> set category_keywords. keyword_score keywords text = 0)
        \<longrightarrow> rule_based_classification text = (''other'', 5 / 10)"
    by (simp add: rule_based_classification_def category_keywords_def any_in_score Let_def)
  have pos: "\<forall>keywords. map_of category_keywords (fst (rule_based_classification text)) = Some keywords
        \<longrightarrow> 0 < keyword_score keywords text"
    by (simp add: rule_based_classification_def category_keywords_def any_in_score Let_def)
  have scenario: "rule_based_classification ''INVOICE #1 Total Due: $500.00'' = (''invoice'', 8 / 10)"
    by (simp add: rule_based_classification_def any_in_def contains_def
      lower_def lower_char_def isupper_def sublist_code invoice_keywords_def
      invoice_amount_keywords_def)
  from first conf zero pos scenario show ?thesis by simp
qed

theorem rule_based_classification_cascade_witness:
  "keyword_score invoice_keywords ''hello there world'' = 0
   \<and> keyword_score contract_keywords ''hello there world'' = 0
   \<and> keyword_score resume_keywords ''hello there world'' = 0
   \<and> keyword_score legal_keywords ''hello there world'' = 0
   \<and> keyword_score report_keywords ''hello there world'' = 0
   \<and> rule_based_classification ''hello there world'' = (''other'', 5 / 10)
   \<and> 0 < keyword_score contract_keywords ''agreement court legal attorney''"
proof -
  have scores: "keyword_score invoice_keywords ''hello there world'' = 0
     \<and> keyword_score contract_keywords ''hello there world'' = 0
     \<and> keyword_score resume_keywords ''hello there world'' = 0
     \<and> keyword_score legal_keywords ''hello there world'' = 0
     \<and> keyword_score report_keywords ''hello there world'' = 0"
    by (simp add: keyword_score_def contains_def lower_def lower_char_def isupper_def
        sublist_code invoice_keywords_def contract_keywords_def resume_keywords_def
        legal_keywords_def report_keywords_def)
  then have zero: "\<forall>(category, keywords) \<in> set category_keywords.
      keyword_score keywords ''hello there world'' = 0"
    by (simp add: category_keywords_def)
  have other: "rule_based_classification ''hello there world'' = (''other'', 5 / 10)"
    using rule_based_classification_cascade [of "''hello there world''"] zero by blast
  have "fst (rule_based_classification ''agreement court legal attorney'') = ''contract''"
    by (simp add: rule_based_classification_def any_in_def contains_def
      lower_def lower_char_def isupper_def sublist_code invoice_keywords_def
      invoice_amount_keywords_def contract_keywords_def)
  then have "map_of category_keywords (fst (rule_based_classification
      ''agreement court legal attorney'')) = Some contract_keywords"
    by (simp add: category_keywords_def)
  then have "0 < keyword_score contract_keywords ''agreement court legal attorney''"
    using rule_based_classification_cascade [of "''agreement court legal attorney''"] by blast
  with scores other show ?thesis by blast
qed

subsection \<open>The classification call\<close>

text \<open>
  C5, as stated, fails: the length that is tested is the length after stripping
  whitespace, so a text of twelve characters, ten of them spaces, is refused as too short.
\<close>

theorem classify_document_length_counterexample:
  "10 \<le> length ''hi          ''
   \<and> classify_document (sample_service None) (Val ''hi          '') = (Inr text_too_short, [])
   \<and> \<not> cr_success text_too_short"
  by (simp add: classify_document_def classify_document_try_def text_too_short_def strip_def
      isspace_def)

text \<open>
  C5, amended. \<open>classify_document\<close> returns the length failure (no success, category
  \<open>other\<close>, confidence 0.0), as a value and with no strategy run, exactly when the text is
  \<^verbatim>\<open>None\<close> or has fewer than 10 characters once surrounding whitespace is stripped (the
  empty text included). Its result is a failure exactly in that case or when the machine
  learning branch of a loaded model raises.
\<close>

theorem classify_document_too_short:
  "(classify_document svc text = (Inr text_too_short, [])
      \<longleftrightarrow> (case text of PyNone \<Rightarrow> True | Val t \<Rightarrow> length (strip t) < 10))
   \<and> cr_category text_too_short = ''other'' \<and> cr_confidence text_too_short = 0
   \<and> \<not> cr_success text_too_short
   \<and> (\<forall>r. fst (classify_document svc text) = Inr r \<longrightarrow>
        (\<not> cr_success r \<longleftrightarrow>
           (case text of PyNone \<Rightarrow> True | Val t \<Rightarrow> length (strip t) < 10)
           \<or> (\<exists>t model e. text = Val t \<and> cs_model svc = Some model
                 \<and> classify_with_model svc model t = Inl e)))"
proof (cases "text")
  case PyNone
  then show ?thesis
    by (simp add: classify_document_def classify_document_try_def text_too_short_def)
next
  case (Val t)
  then show ?thesis
    by (auto simp: classify_document_def classify_document_try_def text_too_short_def
        strip_Nil classify_with_model_def
        split: option.splits sum.splits prod.splits if_splits)
qed

theorem classify_document_too_short_witness:
  "length (strip ''hi'') < 10
   \<and> classify_document (sample_service None) (Val ''hi'') = (Inr text_too_short, [])
   \<and> \<not> cr_success text_too_short"
proof -
  have len: "length (strip ''hi'') < 10"
    by (simp add: strip_def isspace_def)
  from classify_document_too_short [of "sample_service None" "Val ''hi''"]
  have "classify_document (sample_service None) (Val ''hi'') = (Inr text_too_short, [])
      \<longleftrightarrow> length (strip ''hi'') < 10"
    and "\<not> cr_success text_too_short"
    by simp_all
  with len show ?thesis by blast
qed

text \<open>
  C6, as stated, fails: when the machine learning branch raises, the handler returns a
  result whose error field is \<^verbatim>\<open>str(e)\<close>, the text of the exception.
\<close>

lemma classify_with_model_raises:
  "model = (\<lambda>processed. Inl e) \<Longrightarrow>
     classify_with_model (sample_service (Some model)) model t = Inl e"
  by (simp add: classify_with_model_def preprocess_text_def sample_service_def Let_def)

theorem classify_document_exception_text_counterexample:
  "10 \<le> length ''The court invoice total''
   \<and> fst (classify_document
          (sample_service (Some (\<lambda>processed. Inl (ValueError ''X has 5 features''))))
          (Val ''The court invoice total''))
       = Inr \<lparr>cr_success = False, cr_error = Some ''X has 5 features'',
               cr_category = ''invoice'', cr_confidence = 8 / 10,
               cr_all_probabilities = None, cr_method = Some ''rule_based_fallback''\<rparr>"
proof -
  let ?model = "\<lambda>processed :: string.
    (Inl (ValueError ''X has 5 features'') :: exn + string \<times> (string \<times> real) list)"
  have len: "\<not> length (strip ''The court invoice total'') < 10"
    by (simp add: strip_def isspace_def)
  have m: "cs_model (sample_service (Some ?model)) = Some ?model"
    by (simp add: sample_service_def)
  have raises: "classify_with_model (sample_service (Some ?model)) ?model ''The court invoice total''
      = Inl (ValueError ''X has 5 features'')"
    by (rule classify_with_model_raises) simp
  have rules: "rule_based_classification ''The court invoice total'' = (''invoice'', 8 / 10)"
    by (simp add: rule_based_classification_def any_in_def contains_def
      lower_def lower_char_def isupper_def sublist_code invoice_keywords_def
      invoice_amount_keywords_def)
  have "fst (classify_document (sample_service (Some ?model)) (Val ''The court invoice total''))
       = Inr \<lparr>cr_success = False, cr_error = Some ''X has 5 features'',
               cr_category = ''invoice'', cr_confidence = 8 / 10,
               cr_all_probabilities = None, cr_method = Some ''rule_based_fallback''\<rparr>"
    unfolding classify_document_def classify_document_try_def
    by (simp only: py.case len m raises rules option.case if_False list.simps
        prod.case sum.case str_exn.simps rule_based_classification_py.simps fst_conv simp_thms)
  then show ?thesis by simp
qed

text \<open>
  C6, amended. \<open>classify_document\<close> never raises: for every text it returns a result with
  a category and a confidence. When the machine learning branch raises on a text of at
  least 10 stripped characters, the result is a failure that carries the category and
  confidence of the rule-based strategy, the method \<open>rule_based_fallback\<close> and, in its
  error field, the text of the exception. Without a loaded model the error field is
  absent or the length message. The Gemini classifier answers an exception of the remote
  call with the result of the keyword mock, which has no error field.
\<close>

theorem classify_document_never_raises:
  "(\<exists>r. fst (classify_document svc text) = Inr r)
   \<and> (\<forall>t model e. text = Val t \<and> 10 \<le> length (strip t) \<and> cs_model svc = Some model
          \<and> classify_with_model svc model t = Inl e \<longrightarrow>
        classify_document svc text =
          (Inr \<lparr>cr_success = False, cr_error = Some (str_exn e),
                cr_category = fst (rule_based_classification t),
                cr_confidence = snd (rule_based_classification t),
                cr_all_probabilities = None, cr_method = Some ''rule_based_fallback''\<rparr>,
           [ML_Model, Rule_Based]))
   \<and> (\<forall>r. cs_model svc = None \<and> fst (classify_document svc text) = Inr r \<longrightarrow>
          cr_error r = None \<or> cr_error r = Some ''Text too short for classification'')
   \<and> (\<forall>t name e. 10 \<le> length (strip t) \<and> classify_with_gemini g t name = Inl e \<longrightarrow>
          gemini_classify_document g (Val t) name = classify_with_mock t name)
   \<and> gr_error (classify_with_mock t' name') = None"
proof -
  have a: "\<exists>r. fst (classify_document svc text) = Inr r"
    by (cases "text")
      (auto simp: classify_document_def classify_document_try_def
        split: option.splits sum.splits prod.splits if_splits)
  have b: "\<forall>t model e. text = Val t \<and> 10 \<le> length (strip t) \<and> cs_model svc = Some model
          \<and> classify_with_model svc model t = Inl e \<longrightarrow>
        classify_document svc text =
          (Inr \<lparr>cr_success = False, cr_error = Some (str_exn e),
                cr_category = fst (rule_based_classification t),
                cr_confidence = snd (rule_based_classification t),
                cr_all_probabilities = None, cr_method = Some ''rule_based_fallback''\<rparr>,
           [ML_Model, Rule_Based])"
    by (auto simp: classify_document_def classify_document_try_def strip_Nil split: prod.splits)
  have c: "\<forall>r. cs_model svc = None \<and> fst (classify_document svc text) = Inr r \<longrightarrow>
          cr_error r = None \<or> cr_error r = Some ''Text too short for classification''"
    by (cases "text")
      (auto simp: classify_document_def classify_document_try_def text_too_short_def
        split: prod.splits if_splits)
  have d: "\<forall>t name e. 10 \<le> length (strip t) \<and> classify_with_gemini g t name = Inl e \<longrightarrow>
          gemini_classify_document g (Val t) name = classify_with_mock t name"
    by (auto simp: gemini_classify_document_def strip_Nil)
  have e: "gr_error (classify_with_mock t' name') = None"
    by (simp add: classify_with_mock_def Let_def split: prod.splits option.splits)
  from a b c d e show ?thesis by blast
qed

theorem classify_document_never_raises_witness:
  "10 \<le> length (strip ''Whereas the parties agree'')
   \<and> classify_document
        (sample_service (Some (\<lambda>processed. Inl (LookupError ''Resource punkt not found''))))
        (Val ''Whereas the parties agree'')
      = (Inr \<lparr>cr_success = False, cr_error = Some ''Resource punkt not found'',
              cr_category = ''contract'', cr_confidence = 7 / 10,
              cr_all_probabilities = None, cr_method = Some ''rule_based_fallback''\<rparr>,
         [ML_Model, Rule_Based])"
proof -
  let ?model = "\<lambda>processed :: string.
    (Inl (LookupError ''Resource punkt not found'') :: exn + string \<times> (string \<times> real) list)"
  let ?svc = "sample_service (Some ?model)"
  have len: "10 \<le> length (strip ''Whereas the parties agree'')"
    by (simp add: strip_def isspace_def)
  have m: "cs_model ?svc = Some ?model"
    by (simp add: sample_service_def)
  have raises: "classify_with_model ?svc ?model ''Whereas the parties agree''
      = Inl (LookupError ''Resource punkt not found'')"
    by (rule classify_with_model_raises) simp
  have rules: "rule_based_classification ''Whereas the parties agree'' = (''contract'', 7 / 10)"
    by (simp add: rule_based_classification_def any_in_def contains_def
      lower_def lower_char_def isupper_def sublist_code invoice_keywords_def
      invoice_amount_keywords_def contract_keywords_def)
  from classify_document_never_raises [of ?svc "Val ''Whereas the parties agree''"]
  have "\<forall>t model e. Val ''Whereas the parties agree'' = Val t \<and> 10 \<le> length (strip t)
          \<and> cs_model ?svc = Some model \<and> classify_with_model ?svc model t = Inl e \<longrightarrow>
        classify_document ?svc (Val ''Whereas the parties agree'') =
          (Inr \<lparr>cr_success = False, cr_error = Some (str_exn e),
                cr_category = fst (rule_based_classification t),
                cr_confidence = snd (rule_based_classification t),
                cr_all_probabilities = None, cr_method = Some ''rule_based_fallback''\<rparr>,
           [ML_Model, Rule_Based])"
    by blast
  with len m raises have "classify_document ?svc (Val ''Whereas the parties agree'') =
          (Inr \<lparr>cr_success = False,
                cr_error = Some (str_exn (LookupError ''Resource punkt not found'')),
                cr_category = fst (rule_based_classification ''Whereas the parties agree''),
                cr_confidence = snd (rule_based_classification ''Whereas the parties agree''),
                cr_all_probabilities = None, cr_method = Some ''rule_based_fallback''\<rparr>,
           [ML_Model, Rule_Based])"
    by blast
  with len show ?thesis by (simp add: rules)
qed

subsection \<open>Notification dispatch\<close>

text \<open>
  C8, as stated, fails: with the application's configuration, which names no mail
  credentials, the email channel is not skipped but recorded as a failed outcome.
\<close>

theorem route_document_unconfigured_email_counterexample:
  "email_user (DocumentRoutingService default_config) = PyNone
   \<and> ro_notifications_sent
        (route_document (DocumentRoutingService default_config) sample_transports
           ''2024-01-15T10:00:00''
           \<lparr>di_classification = Some (Val ''invoice''), di_confidence = Some (Val (8 / 10)),
            di_extracted_text = Some (Val ''INVOICE #1 Total Due: $500.00''),
            di_summary = Some (Val ''INVOICE #1 Total Due: $500.00'')\<rparr>
           None)
      = Some [\<lparr>no_method = ''email'', no_success = False,
               no_error = Some ''Email credentials not configured'',
               no_recipient = None, no_status_code = None\<rparr>]"
  by (simp add: route_document_def route_document_try_def method_configured_def
      send_email_notification_def DocumentRoutingService_def default_config_def dict_get_def
      Let_def)

text \<open>
  C8, amended. \<open>route_document\<close> never raises. When the notification methods are a list,
  it succeeds and returns, in this order, one email outcome if \<open>email\<close> is among the
  methods and one webhook outcome if \<open>webhook\<close> is among them and a webhook URL is set;
  a webhook without URL is skipped, while an email channel without credentials is
  recorded as failed. A failure of a channel is recorded in the outcome of that channel
  alone: the email outcome is failed, with the text of the exception, exactly when the
  credentials are missing, the message body cannot be built or the mail transport
  raises, and is a success otherwise; the webhook outcome is failed, with the text of the
  exception, exactly when the post raises, and is a success with the status code
  otherwise. The webhook outcome does not depend on the mail transport, nor the email
  outcome on the post.
\<close>

theorem route_document_outcomes:
  assumes "notification_methods svc = Val methods"
  shows "ro_success (route_document svc tr now document_info routing_result)
    \<and> (\<forall>routing.
          routing = (case routing_result of
                       None \<Rightarrow> determine_department svc now document_info
                     | Some given \<Rightarrow> given) \<longrightarrow>
          ro_notifications_sent (route_document svc tr now document_info routing_result)
          = Some ((if ''email'' \<in> set methods
                   then [send_email_notification svc tr document_info routing] else [])
                  @ (if ''webhook'' \<in> set methods \<and> truthy (webhook_url svc)
                     then [send_webhook_notification svc tr document_info routing] else [])))
    \<and> no_method (send_email_notification svc tr document_info routing') = ''email''
    \<and> no_method (send_webhook_notification svc tr document_info routing') = ''webhook''
    \<and> (\<not> truthy (email_user svc) \<or> \<not> truthy (email_password svc) \<longrightarrow>
          send_email_notification svc tr document_info routing'
            = \<lparr>no_method = ''email'', no_success = False,
               no_error = Some ''Email credentials not configured'',
               no_recipient = None, no_status_code = None\<rparr>)
    \<and> (\<forall>e. truthy (email_user svc) \<and> truthy (email_password svc)
            \<and> create_email_body document_info = Inl e \<longrightarrow>
          send_email_notification svc tr document_info routing'
            = \<lparr>no_method = ''email'', no_success = False, no_error = Some (str_exn e),
               no_recipient = None, no_status_code = None\<rparr>)
    \<and> (\<forall>e body. truthy (email_user svc) \<and> truthy (email_password svc)
            \<and> create_email_body document_info = Inr body
            \<and> smtp_send tr document_info routing' = Inl e \<longrightarrow>
          send_email_notification svc tr document_info routing'
            = \<lparr>no_method = ''email'', no_success = False, no_error = Some (str_exn e),
               no_recipient = None, no_status_code = None\<rparr>)
    \<and> (\<forall>body sent. truthy (email_user svc) \<and> truthy (email_password svc)
            \<and> create_email_body document_info = Inr body
            \<and> smtp_send tr document_info routing' = Inr sent \<longrightarrow>
          send_email_notification svc tr document_info routing'
            = \<lparr>no_method = ''email'', no_success = True, no_error = None,
               no_recipient = Some (department_email routing'), no_status_code = None\<rparr>)
    \<and> (\<forall>e. http_post tr (format_str (webhook_url svc)) document_info routing' = Inl e \<longrightarrow>
          send_webhook_notification svc tr document_info routing'
            = \<lparr>no_method = ''webhook'', no_success = False, no_error = Some (str_exn e),
               no_recipient = None, no_status_code = None\<rparr>)
    \<and> (\<forall>status_code.
          http_post tr (format_str (webhook_url svc)) document_info routing' = Inr status_code \<longrightarrow>
          send_webhook_notification svc tr document_info routing'
            = \<lparr>no_method = ''webhook'', no_success = True, no_error = None,
               no_recipient = None, no_status_code = Some status_code\<rparr>)
    \<and> send_webhook_notification svc (tr\<lparr>smtp_send := other_smtp\<rparr>) document_info routing'
        = send_webhook_notification svc tr document_info routing'
    \<and> send_email_notification svc (tr\<lparr>http_post := other_post\<rparr>) document_info routing'
        = send_email_notification svc tr document_info routing'"
proof -
  have a: "ro_success (route_document svc tr now document_info routing_result)"
    using assms
    by (simp add: route_document_def route_document_try_def method_configured_def Let_def)
  have b: "\<forall>routing.
          routing = (case routing_result of
                       None \<Rightarrow> determine_department svc now document_info
                     | Some given \<Rightarrow> given) \<longrightarrow>
          ro_notifications_sent (route_document svc tr now document_info routing_result)
          = Some ((if ''email'' \<in> set methods
                   then [send_email_notification svc tr document_info routing] else [])
                  @ (if ''webhook'' \<in> set methods \<and> truthy (webhook_url svc)
                     then [send_webhook_notification svc tr document_info routing] else []))"
    using assms
    by (simp add: route_document_def route_document_try_def method_configured_def Let_def)
  have c: "no_method (send_email_notification svc tr document_info routing') = ''email''"
    by (simp add: send_email_notification_def split: sum.splits)
  have d: "no_method (send_webhook_notification svc tr document_info routing') = ''webhook''"
    by (simp add: send_webhook_notification_def split: sum.splits)
  have e: "\<not> truthy (email_user svc) \<or> \<not> truthy (email_password svc) \<longrightarrow>
          send_email_notification svc tr document_info routing'
            = \<lparr>no_method = ''email'', no_success = False,
               no_error = Some ''Email credentials not configured'',
               no_recipient = None, no_status_code = None\<rparr>"
    by (auto simp: send_email_notification_def)
  have f: "\<forall>e. truthy (email_user svc) \<and> truthy (email_password svc)
            \<and> create_email_body document_info = Inl e \<longrightarrow>
          send_email_notification svc tr document_info routing'
            = \<lparr>no_method = ''email'', no_success = False, no_error = Some (str_exn e),
               no_recipient = None, no_status_code = None\<rparr>"
    by (simp add: send_email_notification_def)
  have g: "\<forall>e body. truthy (email_user svc) \<and> truthy (email_password svc)
            \<and> create_email_body document_info = Inr body
            \<and> smtp_send tr document_info routing' = Inl e \<longrightarrow>
          send_email_notification svc tr document_info routing'
            = \<lparr>no_method = ''email'', no_success = False, no_error = Some (str_exn e),
               no_recipient = None, no_status_code = None\<rparr>"
    by (simp add: send_email_notification_def)
  have h: "\<forall>body sent. truthy (email_user svc) \<and> truthy (email_password svc)
            \<and> create_email_body document_info = Inr body
            \<and> smtp_send tr document_info routing' = Inr sent \<longrightarrow>
          send_email_notification svc tr document_info routing'
            = \<lparr>no_method = ''email'', no_success = True, no_error = None,
               no_recipient = Some (department_email routing'), no_status_code = None\<rparr>"
    by (simp add: send_email_notification_def)
  have i: "\<forall>e. http_post tr (format_str (webhook_url svc)) document_info routing' = Inl e \<longrightarrow>
          send_webhook_notification svc tr document_info routing'
            = \<lparr>no_method = ''webhook'', no_success = False, no_error = Some (str_exn e),
               no_recipient = None, no_status_code = None\<rparr>"
    by (simp add: send_webhook_notification_def)
  have j: "\<forall>status_code.
          http_post tr (format_str (webhook_url svc)) document_info routing' = Inr status_code \<longrightarrow>
          send_webhook_notification svc tr document_info routing'
            = \<lparr>no_method = ''webhook'', no_success = True, no_error = None,
               no_recipient = None, no_status_code = Some status_code\<rparr>"
    by (simp add: send_webhook_notification_def)
  have k: "send_webhook_notification svc (tr\<lparr>smtp_send := other_smtp\<rparr>) document_info routing'
        = send_webhook_notification svc tr document_info routing'"
    by (simp add: send_webhook_notification_def)
  have l: "send_email_notification svc (tr\<lparr>http_post := other_post\<rparr>) document_info routing'
        = send_email_notification svc tr document_info routing'"
    by (simp add: send_email_notification_def split: sum.splits)
  from a b c d e f g h i j k l show ?thesis by blast
qed

theorem route_document_outcomes_witness:
  "notification_methods
       (DocumentRoutingService \<lparr>EMAIL_USER = Val ''dms@company.com'', EMAIL_PASSWORD = Val ''secret'',
          WEBHOOK_URL = Val ''https://hooks.company.com/dms'',
          NOTIFICATION_METHODS = Some (Val [''email'', ''webhook''])\<rparr>)
     = Val [''email'', ''webhook'']
   \<and> ro_notifications_sent
        (route_document
           (DocumentRoutingService \<lparr>EMAIL_USER = Val ''dms@company.com'',
              EMAIL_PASSWORD = Val ''secret'', WEBHOOK_URL = Val ''https://hooks.company.com/dms'',
              NOTIFICATION_METHODS = Some (Val [''email'', ''webhook''])\<rparr>)
           sample_transports ''2024-01-15T10:00:00''
           \<lparr>di_classification = Some (Val ''invoice''), di_confidence = Some (Val (8 / 10)),
            di_extracted_text = Some (Val ''INVOICE #1 Total Due: $500.00''),
            di_summary = Some (Val ''INVOICE #1 Total Due: $500.00'')\<rparr>
           None)
     = Some [\<lparr>no_method = ''email'', no_success = False,
              no_error = Some ''Username and Password not accepted'',
              no_recipient = None, no_status_code = None\<rparr>,
             \<lparr>no_method = ''webhook'', no_success = True, no_error = None,
              no_recipient = None, no_status_code = Some 200\<rparr>]"
proof -
  let ?svc = "DocumentRoutingService \<lparr>EMAIL_USER = Val ''dms@company.com'',
       EMAIL_PASSWORD = Val ''secret'', WEBHOOK_URL = Val ''https://hooks.company.com/dms'',
       NOTIFICATION_METHODS = Some (Val [''email'', ''webhook''])\<rparr>"
  let ?doc = "\<lparr>di_classification = Some (Val ''invoice''), di_confidence = Some (Val (8 / 10 :: real)),
       di_extracted_text = Some (Val ''INVOICE #1 Total Due: $500.00''),
       di_summary = Some (Val ''INVOICE #1 Total Due: $500.00'')\<rparr>"
  let ?routing = "determine_department ?svc ''2024-01-15T10:00:00'' ?doc"
  have methods: "notification_methods ?svc = Val [''email'', ''webhook'']"
    by (simp add: DocumentRoutingService_def dict_get_def)
  have url: "truthy (webhook_url ?svc)"
    by (simp add: DocumentRoutingService_def)
  have credentials: "truthy (email_user ?svc) \<and> truthy (email_password ?svc)"
    by (simp add: DocumentRoutingService_def)
  have body: "create_email_body ?doc = Inr (take 500 ''INVOICE #1 Total Due: $500.00'' @ ''...'')"
    by (simp add: create_email_body_def dict_get_def)
  have smtp: "smtp_send sample_transports ?doc ?routing
      = Inl (Exception ''Username and Password not accepted'')"
    by (simp add: sample_transports_def)
  have post: "http_post sample_transports (format_str (webhook_url ?svc)) ?doc ?routing = Inr 200"
    by (simp add: sample_transports_def)
  note outcomes = route_document_outcomes [OF methods, of sample_transports
      "''2024-01-15T10:00:00''" ?doc None ?routing]
  from outcomes url
  have sent: "ro_notifications_sent
       (route_document ?svc sample_transports ''2024-01-15T10:00:00'' ?doc None)
      = Some [send_email_notification ?svc sample_transports ?doc ?routing,
              send_webhook_notification ?svc sample_transports ?doc ?routing]"
    by simp
  from outcomes credentials body smtp
  have email: "send_email_notification ?svc sample_transports ?doc ?routing
      = \<lparr>no_method = ''email'', no_success = False,
         no_error = Some (str_exn (Exception ''Username and Password not accepted'')),
         no_recipient = None, no_status_code = None\<rparr>"
    by blast
  from outcomes post
  have webhook: "send_webhook_notification ?svc sample_transports ?doc ?routing
      = \<lparr>no_method = ''webhook'', no_success = True, no_error = None,
         no_recipient = None, no_status_code = Some 200\<rparr>"
    by blast
  from methods sent email webhook show ?thesis by simp
qed

subsection \<open>The pipeline\<close>

text \<open>
  C2. When the extraction stage fails (the extraction service raises or reports no
  success, or storing the extracted data raises), the pipeline returns an error, the
  document ends with status \<open>failed\<close>, the log of the run holds the start row and a failed
  row for the extraction and no other row, and no classification, summarization or
  routing service is called: the columns they would write are untouched.
\<close>

theorem extraction_failure_is_fatal:
  assumes "(\<exists>e. app_process_document a (doc_file_path document) = Inl e)
    \<or> (\<exists>result. app_process_document a (doc_file_path document) = Inr result
          \<and> (\<not> er_success result \<or> (\<exists>e. app_store_extracted_data a result = Inl e)))"
  shows "\<exists>error r. process_document_pipeline a now (Some document) = (Inl error, Some r)
    \<and> doc_status (run_document r) = ''failed''
    \<and> map (\<lambda>row. (pl_module row, pl_status row)) (run_logs r)
        = [(''pipeline'', ''started''), (''extraction'', ''failed'')]
    \<and> run_calls r = [Extraction]
    \<and> run_routing r = None
    \<and> doc_classification (run_document r) = doc_classification document
    \<and> doc_confidence_score (run_document r) = doc_confidence_score document
    \<and> doc_summary (run_document r) = doc_summary document
    \<and> doc_department (run_document r) = doc_department document"
  using assms
  by (auto simp: process_document_pipeline_def extraction_step_def add_log_def called_def Let_def)

theorem extraction_failure_is_fatal_witness:
  "app_process_document
       (sample_app (\<lambda>path. Inr \<lparr>er_success = False, er_text = [],
                                er_error = Some ''Unsupported file format: .xyz''\<rparr>))
       (doc_file_path (uploaded ''report.xyz''))
     = Inr \<lparr>er_success = False, er_text = [], er_error = Some ''Unsupported file format: .xyz''\<rparr>
   \<and> (case snd (process_document_pipeline
                   (sample_app (\<lambda>path. Inr \<lparr>er_success = False, er_text = [],
                                            er_error = Some ''Unsupported file format: .xyz''\<rparr>))
                   ''2024-01-15T10:00:00'' (Some (uploaded ''report.xyz''))) of
         None \<Rightarrow> False
       | Some r \<Rightarrow> doc_status (run_document r) = ''failed'' \<and> run_calls r = [Extraction]
                   \<and> map pl_module (run_logs r) = [''pipeline'', ''extraction''])"
proof -
  let ?result = "\<lparr>er_success = False, er_text = [],
    er_error = Some ''Unsupported file format: .xyz''\<rparr>"
  let ?a = "sample_app (\<lambda>path. Inr ?result)"
  have extraction: "app_process_document ?a (doc_file_path (uploaded ''report.xyz'')) = Inr ?result"
    by (simp add: sample_app_def)
  then have "(\<exists>e. app_process_document ?a (doc_file_path (uploaded ''report.xyz'')) = Inl e)
    \<or> (\<exists>result. app_process_document ?a (doc_file_path (uploaded ''report.xyz'')) = Inr result
          \<and> (\<not> er_success result \<or> (\<exists>e. app_store_extracted_data ?a result = Inl e)))"
    by simp
  from extraction_failure_is_fatal [OF this, of "''2024-01-15T10:00:00''"]
  obtain error r where
    run: "process_document_pipeline ?a ''2024-01-15T10:00:00'' (Some (uploaded ''report.xyz''))
      = (Inl error, Some r)"
    and status: "doc_status (run_document r) = ''failed''"
    and logs: "map (\<lambda>row. (pl_module row, pl_status row)) (run_logs r)
        = [(''pipeline'', ''started''), (''extraction'', ''failed'')]"
    and calls: "run_calls r = [Extraction]"
    by (elim exE conjE) (rule that)
  from logs have "map fst (map (\<lambda>row. (pl_module row, pl_status row)) (run_logs r))
      = [''pipeline'', ''extraction'']"
    by simp
  then have "map pl_module (run_logs r) = [''pipeline'', ''extraction'']"
    by (simp add: comp_def)
  with extraction run status calls show ?thesis by simp
qed

text \<open>
  C3, evaluated. The extracted text \<^verbatim>\<open>Scan 1\<close> is too short to classify, so the
  classification stage fails. The run completes, the category stays unset, the failed
  row is written and routing runs and chooses the archive with review. But the decision
  does not come from the low-confidence branch: the unset category and confidence reach
  \<open>determine_department\<close> as \<^verbatim>\<open>None\<close> under keys that are present, the defaults
  \<open>other\<close> and 0.0 of \<^verbatim>\<open>dict.get\<close> do not apply, the comparison with the threshold
  raises a TypeError, and the reason of the decision is the text of that exception.
\<close>

theorem classification_failure_routes_through_error_handler:
  "(case snd (process_document_pipeline
                (sample_app (\<lambda>path. Inr \<lparr>er_success = True, er_text = ''Scan 1'', er_error = None\<rparr>))
                ''2024-01-15T10:00:00'' (Some (uploaded ''scan.pdf''))) of
      None \<Rightarrow> False
    | Some r \<Rightarrow>
        doc_status (run_document r) = ''completed''
        \<and> doc_classification (run_document r) = PyNone
        \<and> \<lparr>pl_module = ''classification'', pl_status = ''failed'',
            pl_message = Message ''Classification failed''\<rparr> \<in> set (run_logs r)
        \<and> Routing \<in> set (run_calls r)
        \<and> doc_department (run_document r) = Val ''archive''
        \<and> (case run_routing r of
              None \<Rightarrow> False
            | Some outcome \<Rightarrow>
                (case ro_routing_result outcome of
                   None \<Rightarrow> False
                 | Some decision \<Rightarrow>
                     department_id decision = ''archive'' \<and> needs_review decision
                     \<and> rr_confidence decision = 0
                     \<and> reason decision
                         = ''Error in routing: '' @ quoted ''<''
                           @ '' not supported between instances of '' @ quoted ''NoneType''
                           @ '' and '' @ quoted ''float''
                     \<and> reason decision \<noteq> ''Low confidence classification''
                     \<and> reason (determine_department (DocumentRoutingService default_config)
                          ''2024-01-15T10:00:00''
                          \<lparr>di_classification = Some (Val ''other''), di_confidence = Some (Val 0),
                           di_extracted_text = Some (Val ''Scan 1''), di_summary = Some PyNone\<rparr>)
                         = ''Low confidence classification'')))"
  by (simp add: process_document_pipeline_def sample_app_def uploaded_def extraction_step_def
      add_log_def called_def Let_def classification_step_def classify_document_def
      classify_document_try_def strip_def isspace_def text_too_short_def sample_service_def
      summarization_step_def generate_summary_def no_kwargs_def routing_step_def
      route_document_def route_document_try_def determine_department_def
      determine_department_try_def dict_get_def DocumentRoutingService_def default_config_def
      method_configured_def send_email_notification_def create_routing_result_def
      load_departments_def load_routing_rules_def quoted_def)

subsection \<open>The text normalizer\<close>

text \<open>
  C10, as stated, fails. With a stemmer that strips a plural s, as step 1a of the Porter
  algorithm does, the word \<^verbatim>\<open>ands\<close> is normalized to \<^verbatim>\<open>and\<close>; this is a stop word,
  so normalizing the output once more gives the empty text.
\<close>

theorem preprocess_text_not_idempotent_counterexample:
  "preprocess_text (sample_service None) ''ands'' = Inr ''and''
   \<and> preprocess_text (sample_service None) ''and'' = Inr []
   \<and> ''and'' \<noteq> []"
  by (simp add: preprocess_text_def sample_service_def lower_def lower_char_def isupper_def
      isalpha_ascii_def isspace_def split_def fallback_stop_words_def porter_step_1a_def
      suffix_def)

lemma islower_ascii_facts:
  assumes "islower_ascii c"
  shows "\<not> isupper c" and "\<not> isspace c" and "isalpha_ascii c" and "lower_char c = c"
  using assms
  by (auto simp: islower_ascii_def isupper_def isspace_def isalpha_ascii_def lower_char_def Let_def)

lemma space_facts:
  "isspace CHR '' ''" "lower_char CHR '' '' = CHR '' ''"
  by (simp_all add: isspace_def lower_char_def isupper_def)

lemma set_join_space:
  "set (join_space words) \<subseteq> (\<Union>w \<in> set words. set w) \<union> {CHR '' ''}"
  by (induction words rule: join_space.induct) auto

lemma collapse_whitespace_word:
  "\<forall>c \<in> set word. \<not> isspace c \<Longrightarrow>
     collapse_whitespace (word @ rest) = word @ collapse_whitespace rest"
  by (induction word) auto

lemma collapse_whitespace_join_space:
  assumes "\<forall>w \<in> set words. w \<noteq> [] \<and> (\<forall>c \<in> set w. \<not> isspace c)"
  shows "collapse_whitespace (join_space words) = join_space words"
  using assms
proof (induction words rule: join_space.induct)
  case 1
  then show ?case by simp
next
  case (2 token)
  then show ?case
    using collapse_whitespace_word [of token "[]"] by simp
next
  case (3 token next_token rest)
  from "3.prems" have next_word: "next_token \<noteq> []" "\<forall>c \<in> set next_token. \<not> isspace c"
    by auto
  then obtain c cs where c: "next_token = c # cs" "\<not> isspace c"
    by (cases next_token) auto
  then have start: "dropWhile isspace (join_space (next_token # rest)) = join_space (next_token # rest)"
    by (cases rest) auto
  from "3.prems" have "\<forall>c \<in> set token. \<not> isspace c" by simp
  then have "collapse_whitespace (join_space (token # next_token # rest))
      = token @ collapse_whitespace (CHR '' '' # join_space (next_token # rest))"
    using collapse_whitespace_word [of token] by simp
  also have "\<dots> = token @ CHR '' '' # collapse_whitespace (join_space (next_token # rest))"
    by (simp add: space_facts start)
  also have "\<dots> = join_space (token # next_token # rest)"
    using "3.IH" "3.prems" by simp
  finally show ?case .
qed

lemma clean_join_space:
  assumes "\<forall>w \<in> set words. w \<noteq> [] \<and> (\<forall>c \<in> set w. islower_ascii c)"
  shows "collapse_whitespace
           (filter (\<lambda>c. isalpha_ascii c \<or> isspace c) (lower (join_space words)))
         = join_space words"
proof -
  have chars: "\<forall>c \<in> set (join_space words). islower_ascii c \<or> c = CHR '' ''"
    using assms set_join_space [of words] by auto
  then have "lower (join_space words) = join_space words"
    unfolding lower_def
    by (intro map_idI) (auto simp: islower_ascii_facts space_facts)
  moreover from chars
  have "filter (\<lambda>c. isalpha_ascii c \<or> isspace c) (join_space words) = join_space words"
    by (intro filter_True) (auto simp: islower_ascii_facts space_facts)
  moreover from assms have "collapse_whitespace (join_space words) = join_space words"
    by (intro collapse_whitespace_join_space) (auto simp: islower_ascii_facts)
  ultimately show ?thesis by simp
qed

text \<open>
  C10, amended. \<open>preprocess_text\<close> is a function of the service and the text alone. Let
  the first application cut the cleaned text into tokens and keep the stems \<open>stems\<close>.
  If every stem is a non-empty word of the letters a to z, is longer than two
  characters, is no stop word and is its own stem, and if the tokenizer cuts the stems
  joined by single spaces back into the stems, then normalizing the output again
  returns the same output.
\<close>

theorem preprocess_text_idempotent:
  assumes tokens: "cs_word_tokenize svc
        (collapse_whitespace (filter (\<lambda>c. isalpha_ascii c \<or> isspace c) (lower x))) = Inr tokens"
    and stems: "stems = map (cs_stem svc)
        (filter (\<lambda>token. token \<notin> set (cs_stop_words svc) \<and> length token > 2) tokens)"
    and words: "\<forall>s \<in> set stems. s \<noteq> [] \<and> (\<forall>c \<in> set s. islower_ascii c)"
    and kept: "\<forall>s \<in> set stems. s \<notin> set (cs_stop_words svc) \<and> length s > 2 \<and> cs_stem svc s = s"
    and again: "cs_word_tokenize svc (join_space stems) = Inr stems"
  shows "preprocess_text svc x = Inr (join_space stems)
    \<and> preprocess_text svc (join_space stems) = Inr (join_space stems)"
proof -
  have first: "preprocess_text svc x = Inr (join_space stems)"
    using tokens stems by (simp add: preprocess_text_def)
  from kept have "filter (\<lambda>token. token \<notin> set (cs_stop_words svc) \<and> length token > 2) stems = stems"
    by (intro filter_True) auto
  moreover from kept have "map (cs_stem svc) stems = stems"
    by (intro map_idI) auto
  ultimately have second: "preprocess_text svc (join_space stems) = Inr (join_space stems)"
    using clean_join_space [OF words] again by (simp add: preprocess_text_def)
  from first second show ?thesis by simp
qed

theorem preprocess_text_idempotent_witness:
  "preprocess_text (sample_service None) ''The Invoices, and 2 ponies'' = Inr ''invoice poni''
   \<and> preprocess_text (sample_service None) ''invoice poni'' = Inr ''invoice poni''"
proof -
  let ?svc = "sample_service None"
  let ?stems = "[''invoice'', ''poni'']"
  have tokens: "cs_word_tokenize ?svc
        (collapse_whitespace (filter (\<lambda>c. isalpha_ascii c \<or> isspace c)
           (lower ''The Invoices, and 2 ponies''))) = Inr [''the'', ''invoices'', ''and'', ''ponies'']"
    by (simp add: sample_service_def lower_def lower_char_def isupper_def isalpha_ascii_def
        isspace_def split_def)
  have stems: "?stems = map (cs_stem ?svc)
        (filter (\<lambda>token. token \<notin> set (cs_stop_words ?svc) \<and> length token > 2)
           [''the'', ''invoices'', ''and'', ''ponies''])"
    by (simp add: sample_service_def fallback_stop_words_def porter_step_1a_def suffix_def)
  have words: "\<forall>s \<in> set ?stems. s \<noteq> [] \<and> (\<forall>c \<in> set s. islower_ascii c)"
    by (simp add: islower_ascii_def)
  have kept: "\<forall>s \<in> set ?stems. s \<notin> set (cs_stop_words ?svc) \<and> length s > 2 \<and> cs_stem ?svc s = s"
    by (simp add: sample_service_def fallback_stop_words_def porter_step_1a_def suffix_def)
  have again: "cs_word_tokenize ?svc (join_space ?stems) = Inr ?stems"
    by (simp add: sample_service_def split_def isspace_def)
  from preprocess_text_idempotent [OF tokens stems words kept again]
  show ?thesis by simp
qed

subsection \<open>Summaries\<close>























end
